theory Spec2Isabelle
  imports Main
begin

section \<open>Strings and the tweet identifier\<close>

text \<open>
  The dashboard script works on strings; a string is modelled as a list of characters.
  The regular expression of \<open>extractTweetId\<close> is \<open>/status\/(\d+)/\<close>: the seven
  characters \<open>status/\<close> and then one or more decimal digits, the digits being the
  first capture group. In a JavaScript regular expression the class \<open>\d\<close> is exactly
  the ten characters 0 to 9. The pattern has ASCII characters only; every other character
  of an input fails to match it in the same way, whatever its code.
\<close>

definition isDigit :: "char \<Rightarrow> bool" where
  "isDigit c \<longleftrightarrow> c \<in> set ''0123456789''"

text \<open>
  \<open>stripPrefix p s\<close> is the rest of \<open>s\<close> after the literal \<open>p\<close>, when
  \<open>s\<close> starts with it.
\<close>

fun stripPrefix :: "string \<Rightarrow> string \<Rightarrow> string option" where
  "stripPrefix [] s = Some s"
| "stripPrefix (p # ps) [] = None"
| "stripPrefix (p # ps) (c # cs) = (if p = c then stripPrefix ps cs else None)"

text \<open>
  One attempt of the matcher at the start of \<open>s\<close>: the literal, then the greedy
  \<open>\d+\<close>. Nothing follows the digits in the pattern, so the greedy run is never given
  back, and the attempt fails exactly when the run is empty. The value is capture group 1.
\<close>

definition matchHere :: "string \<Rightarrow> string option" where
  "matchHere s =
     (case stripPrefix ''status/'' s of
        None \<Rightarrow> None
      | Some r \<Rightarrow> (let d = takeWhile isDigit r in if d = [] then None else Some d))"

text \<open>
  \<open>input.match(re)\<close> with a regular expression that has no global flag tries the
  start positions from left to right, the end of the string included, and stops at the
  first attempt that succeeds; \<open>None\<close> is the \<open>null\<close> of the source.
\<close>

fun regexMatch :: "string \<Rightarrow> string option" where
  "regexMatch [] = matchHere []"
| "regexMatch (c # cs) =
     (case matchHere (c # cs) of Some d \<Rightarrow> Some d | None \<Rightarrow> regexMatch cs)"

text \<open>\<open>return match ? match[1] : input;\<close>\<close>

definition extractTweetId :: "string \<Rightarrow> string" where
  "extractTweetId input = (case regexMatch input of Some d \<Rightarrow> d | None \<Rightarrow> input)"

text \<open>
  The condition of the specification, stated on positions: \<open>status/\<close> stands at
  index \<open>i\<close> of \<open>s\<close> and a decimal digit follows it at once.
\<close>

definition statusDigitsAt :: "string \<Rightarrow> nat \<Rightarrow> bool" where
  "statusDigitsAt s i \<longleftrightarrow>
     take 7 (drop i s) = ''status/'' \<and>
     (case drop 7 (drop i s) of [] \<Rightarrow> False | c # _ \<Rightarrow> isDigit c)"


section \<open>Numbers\<close>

text \<open>
  A JavaScript number is an IEEE 754 double. \<open>Fin m e\<close> is the finite double
  \<open>m * 2 ^ e\<close>, kept in the form where \<open>m\<close> is odd, or \<open>m = 0\<close> and
  \<open>e = 0\<close>; the sign of zero is not represented, and neither of the two conversions
  to text below prints it differently from zero. A JSON reply cannot carry a NaN, and
  multiplying by the constant 100 cannot produce one.
\<close>

datatype number = Fin int int | PosInf | NegInf

text \<open>\<open>bitlen n\<close> is the number of binary digits of \<open>n\<close>.\<close>

fun bitlen :: "nat \<Rightarrow> nat" where
  "bitlen n = (if n = 0 then 0 else Suc (bitlen (n div 2)))"

declare bitlen.simps [simp del]

text \<open>The representation with an odd mantissa.\<close>

function canon :: "nat \<Rightarrow> int \<Rightarrow> nat \<times> int" where
  "canon m e = (if m = 0 then (0, 0) else if even m then canon (m div 2) (e + 1) else (m, e))"
  by pat_completeness auto
termination
  by (relation "measure (\<lambda>(m, e). m)") auto

declare canon.simps [simp del]

text \<open>
  \<open>m * 2 ^ e\<close> and \<open>m * 10 ^ e\<close> as a fraction of two natural numbers
  (numerator, denominator).
\<close>

definition scale2 :: "nat \<Rightarrow> int \<Rightarrow> nat \<times> nat" where
  "scale2 m e = (if 0 \<le> e then (m * 2 ^ nat e, 1) else (m, 2 ^ nat (- e)))"

definition scale10 :: "nat \<Rightarrow> int \<Rightarrow> nat \<times> nat" where
  "scale10 m e = (if 0 \<le> e then (m * 10 ^ nat e, 1) else (m, 10 ^ nat (- e)))"

text \<open>
  For \<open>a, q > 0\<close>: the integer \<open>e\<close> with \<open>2 ^ e \<le> a / q < 2 ^ (e + 1)\<close>.
\<close>

definition floorLog2 :: "nat \<Rightarrow> nat \<Rightarrow> int" where
  "floorLog2 a q =
     (let e = int (bitlen a) - int (bitlen q);
          below = (if 0 \<le> e then a < q * 2 ^ nat e else a * 2 ^ nat (- e) < q)
      in if below then e - 1 else e)"

text \<open>The integer nearest to \<open>a / q\<close>, a tie going to the even one.\<close>

definition roundHalfEven :: "nat \<Rightarrow> nat \<Rightarrow> nat" where
  "roundHalfEven a q =
     (let n = a div q; r = a mod q
      in if 2 * r < q then n else if q < 2 * r then n + 1 else if even n then n else n + 1)"

text \<open>
  Rounding of the non-negative fraction \<open>a / q\<close> to the nearest double, ties to even
  (the rounding of every arithmetic operation and of reading a decimal literal). The last
  binary place kept is \<open>2 ^ u\<close>: 53 significant bits, and never below the smallest
  subnormal \<open>2 ^ - 1074\<close>. A result of \<open>2 ^ 1024\<close> or more is an overflow,
  \<open>None\<close>.
\<close>

definition roundMagnitude :: "nat \<Rightarrow> nat \<Rightarrow> (nat \<times> int) option" where
  "roundMagnitude a q =
     (if a = 0 then Some (0, 0)
      else let u = max (floorLog2 a q - 52) (- 1074);
               n = (if 0 \<le> u then roundHalfEven a (q * 2 ^ nat u)
                    else roundHalfEven (a * 2 ^ nat (- u)) q)
           in if 0 \<le> u \<and> 2 ^ 1024 \<le> n * 2 ^ nat u then None else Some (canon n u))"

text \<open>The double nearest to \<open>p / q\<close>, for \<open>q > 0\<close>.\<close>

definition roundDouble :: "int \<Rightarrow> nat \<Rightarrow> number" where
  "roundDouble p q =
     (case roundMagnitude (nat \<bar>p\<bar>) q of
        None \<Rightarrow> (if p < 0 then NegInf else PosInf)
      | Some (m, e) \<Rightarrow> Fin (if p < 0 then - int m else int m) e)"

text \<open>The expression \<open>x * 100\<close> of the source: the exact product, rounded.\<close>

fun times100 :: "number \<Rightarrow> number" where
  "times100 (Fin m e) =
     (let (a, q) = scale2 (nat \<bar>m\<bar> * 100) e in roundDouble (if m < 0 then - int a else int a) q)"
| "times100 PosInf = PosInf"
| "times100 NegInf = NegInf"

subsection \<open>Numbers as text\<close>

text \<open>The decimal digits of a natural number.\<close>

definition digitChar :: "nat \<Rightarrow> char" where
  "digitChar d = ''0123456789'' ! d"

fun digitsOf :: "nat \<Rightarrow> string" where
  "digitsOf n = (if n < 10 then [digitChar n] else digitsOf (n div 10) @ [digitChar (n mod 10)])"

declare digitsOf.simps [simp del]

text \<open>
  \<open>Number::toString\<close> of ECMAScript, which a template literal applies to an
  interpolated number. For a positive double \<open>x = a / q\<close> it takes integers
  \<open>n\<close>, \<open>k\<close>, \<open>s\<close> with \<open>k \<ge> 1\<close>,
  \<open>10 ^ (k - 1) \<le> s < 10 ^ k\<close>, the double of \<open>s * 10 ^ (n - k)\<close> being
  \<open>x\<close>, and \<open>k\<close> as small as possible; among several \<open>s\<close> the one
  nearest to \<open>x\<close>, and the even one of two equally near.

  \<open>decExp a q\<close> is the \<open>n\<close> with \<open>10 ^ (n - 1) \<le> a / q < 10 ^ n\<close>; the
  \<open>n\<close> of the digits is this one or, when rounding up reaches the next power of
  ten, the one after it.
\<close>

definition decExp :: "nat \<Rightarrow> nat \<Rightarrow> int" where
  "decExp a q =
     (if q \<le> a then int (length (digitsOf (a div q)))
      else case find (\<lambda>j. q \<le> a * 10 ^ j) [1 ..< Suc (length (digitsOf q))] of
             Some j \<Rightarrow> 1 - int j
           | None \<Rightarrow> 0)"

definition candidate :: "nat \<Rightarrow> nat \<Rightarrow> nat \<Rightarrow> int \<Rightarrow> nat \<Rightarrow> bool" where
  "candidate a q k n s \<longleftrightarrow>
     10 ^ (k - 1) \<le> s \<and> s < 10 ^ k \<and>
     (let (b, r) = scale10 s (n - int k) in roundMagnitude b r = roundMagnitude a q)"

definition candidates :: "nat \<Rightarrow> nat \<Rightarrow> nat \<Rightarrow> (int \<times> nat) list" where
  "candidates a q k =
     concat (map (\<lambda>n.
        let (b, r) = scale10 1 (n - int k);
            s = (a * r) div (q * b)
        in map (Pair n) (filter (candidate a q k n) [s, s + 1]))
      [decExp a q, decExp a q + 1])"

definition closer :: "nat \<Rightarrow> nat \<Rightarrow> nat \<Rightarrow> (int \<times> nat) \<Rightarrow> (int \<times> nat) \<Rightarrow> (int \<times> nat)" where
  "closer a q k c d =
     (let dist = (\<lambda>(n, s). let (b, r) = scale10 s (n - int k)
                             in (\<bar>int b * int q - int a * int r\<bar>, int r));
          (x, y) = dist c;
          (x', y') = dist d
      in if x' * y < x * y' \<or> (x' * y = x * y' \<and> even (snd d) \<and> odd (snd c)) then d else c)"

definition shortest :: "nat \<Rightarrow> nat \<Rightarrow> (nat \<times> int \<times> nat) option" where
  "shortest a q =
     (case find (\<lambda>k. candidates a q k \<noteq> [])
             [1, 2, 3, 4, 5, 6, 7, 8, 9, 10, 11, 12, 13, 14, 15, 16, 17] of
        None \<Rightarrow> None
      | Some k \<Rightarrow>
          (let cs = candidates a q k;
               (n, s) = foldl (closer a q k) (hd cs) (tl cs)
           in Some (k, n, s)))"

text \<open>
  The layout of the \<open>k\<close> digits \<open>ds\<close> with the decimal exponent \<open>n\<close>:
  plain digits, a decimal point, leading zeros, or exponent notation outside
  \<open>- 5 \<le> n \<le> 21\<close>.
\<close>

definition layout :: "nat \<Rightarrow> int \<Rightarrow> string \<Rightarrow> string" where
  "layout k n ds =
     (if - 5 \<le> n \<and> n \<le> 21 then
        (if int k \<le> n then ds @ replicate (nat n - k) CHR ''0''
         else if 0 < n then take (nat n) ds @ ''.'' @ drop (nat n) ds
         else ''0.'' @ replicate (nat (- n)) CHR ''0'' @ ds)
      else
        (let e = (if 0 < n - 1 then ''+'' else ''-'') @ digitsOf (nat \<bar>n - 1\<bar>)
         in if k = 1 then ds @ ''e'' @ e
            else take 1 ds @ ''.'' @ drop 1 ds @ ''e'' @ e))"

text \<open>
  Seventeen digits identify any double, so \<open>shortest\<close> finds digits for every
  double; the empty text stands for a pair \<open>a\<close>, \<open>q\<close> that is not one.
\<close>

definition posToString :: "nat \<Rightarrow> nat \<Rightarrow> string" where
  "posToString a q =
     (case shortest a q of
        None \<Rightarrow> []
      | Some (k, n, s) \<Rightarrow> layout k n (digitsOf s))"

fun numToString :: "number \<Rightarrow> string" where
  "numToString PosInf = ''Infinity''"
| "numToString NegInf = ''-Infinity''"
| "numToString (Fin m e) =
     (if m = 0 then ''0''
      else let (a, q) = scale2 (nat \<bar>m\<bar>) e
           in (if m < 0 then ''-'' else '''') @ posToString a q)"

text \<open>
  \<open>x.toFixed(1)\<close>: below \<open>10 ^ 21\<close> the integer \<open>n\<close> for which
  \<open>n / 10\<close> is nearest to the magnitude (the larger of two equally near), printed
  with one digit after the point and at least one before it; from \<open>10 ^ 21\<close> on,
  the text of \<open>Number::toString\<close>.
\<close>

fun toFixed1 :: "number \<Rightarrow> string" where
  "toFixed1 PosInf = ''Infinity''"
| "toFixed1 NegInf = ''-Infinity''"
| "toFixed1 (Fin m e) =
     (let s = (if m < 0 then ''-'' else '''');
          (a, q) = scale2 (nat \<bar>m\<bar>) e
      in if 10 ^ 21 * q \<le> a then s @ numToString (Fin \<bar>m\<bar> e)
         else let d = digitsOf ((20 * a + q) div (2 * q));
                  d' = (if length d \<le> 1 then replicate (2 - length d) CHR ''0'' @ d else d);
                  k = length d'
              in s @ take (k - 1) d' @ ''.'' @ drop (k - 1) d')"

text \<open>The number that an integer literal of the source denotes.\<close>

definition numberOfInt :: "int \<Rightarrow> number" where
  "numberOfInt n = roundDouble n 1"

text \<open>The comparison \<open>x > 0\<close>.\<close>

fun positive :: "number \<Rightarrow> bool" where
  "positive (Fin m e) \<longleftrightarrow> 0 < m"
| "positive PosInf \<longleftrightarrow> True"
| "positive NegInf \<longleftrightarrow> False"

section \<open>Replies of the backend\<close>

text \<open>
  Data that the script hands on without looking inside (the series of a chart, the body
  of a request) is a JSON value.
\<close>

datatype json =
    JNull
  | JBool bool
  | JNum number
  | JStr string
  | JArr "json list"
  | JObj "(string \<times> json) list"

text \<open>The truth value that an \<open>if\<close> of the source takes a JSON value for.\<close>

fun truthy :: "json \<Rightarrow> bool" where
  "truthy JNull \<longleftrightarrow> False"
| "truthy (JBool b) \<longleftrightarrow> b"
| "truthy (JNum (Fin m e)) \<longleftrightarrow> m \<noteq> 0"
| "truthy (JNum PosInf) \<longleftrightarrow> True"
| "truthy (JNum NegInf) \<longleftrightarrow> True"
| "truthy (JStr s) \<longleftrightarrow> s \<noteq> []"
| "truthy (JArr xs) \<longleftrightarrow> True"
| "truthy (JObj kvs) \<longleftrightarrow> True"

text \<open>
  The replies are typed by the fields the script reads from them and by the use it makes
  of each: a field it multiplies is a number, a field it lowercases is a string, a field
  it slices and iterates is a list. Every field is prefixed with the reply it belongs to;
  the rest of the name is the JSON key.

  The envelope of every reply: \<open>data.success\<close>, \<open>data.error\<close>, and the fields of
  the endpoint.
\<close>

record 'a reply =
  success :: bool
  error :: string
  payload :: 'a

text \<open>
  What awaiting \<open>fetch\<close> and \<open>response.json()\<close> comes to: a failure of the
  transport or of the parse, with the message of the error, or the parsed reply.
\<close>

datatype 'a outcome = Failed string | Reply "'a reply"

record userInfo =
  ui_username :: string
  ui_tweet_count :: number
  ui_followers_count :: number
  ui_following_count :: number
  ui_name :: string
  ui_verified :: bool
  ui_description :: "string option"
  ui_created_at :: string

text \<open>
  The statistics objects of the endpoints; an endpoint that does not send \<open>total\<close> or
  \<open>avg_confidence\<close> has a path that does not read it.
\<close>

record stats =
  s_total :: number
  s_positive_pct :: number
  s_neutral_pct :: number
  s_negative_pct :: number
  s_avg_confidence :: number

record tweet =
  t_id :: string
  t_confidence :: number
  t_created_at :: string
  t_text :: string
  t_likes :: number
  t_retweets :: number
  t_replies :: number

record categorized =
  c_positive :: "tweet list"
  c_neutral :: "tweet list"
  c_negative :: "tweet list"

record sentimentCharts =
  ch_pie_chart :: json
  ch_engagement :: "json option"

record userTweets =
  ut_stats :: stats
  ut_categorized :: categorized
  ut_charts :: sentimentCharts

record analyzedReply =
  r_sentiment :: string
  r_confidence :: number
  r_text :: string

record replyAnalysis =
  ra_total_replies :: number
  ra_sentiment_stats :: stats
  ra_analyzed_replies :: "analyzedReply list"

record originalTweet =
  o_text :: string
  o_likes :: number
  o_retweets :: number
  o_replies :: number

record replyCharts =
  rc_sentiment_distribution :: "json option"

record tweetReplies =
  tr_tweet :: originalTweet
  tr_reply_analysis :: replyAnalysis
  tr_charts :: "replyCharts option"

record comparedUser =
  cu_info_username :: string
  cu_stats :: stats

record userComparison =
  uc_user1 :: comparedUser
  uc_user2 :: comparedUser
  uc_profile_comparison :: json
  uc_sentiment_comparison :: json

record comparedTweet =
  ct_details_text :: string
  ct_stats :: stats

record tweetComparison =
  tc_tweet1 :: comparedTweet
  tc_tweet2 :: comparedTweet
  tc_comparison :: json

record searchData =
  sd_query :: string
  sd_stats :: stats
  sd_charts :: sentimentCharts

record sentimentTest =
  se_sentiment :: string
  se_confidence :: number
  se_text :: string
  se_cleaned_text :: string

section \<open>Rendered markup\<close>

text \<open>
  The markup that a template literal of the source builds is kept as the instance of the
  template: the elements that the template itself writes, as a tree, with the interpolated
  values at their places. The text of a node is a sequence of pieces: the text of the
  template, an interpolated string, an interpolated string in lower case, a number or a
  date in the notation of the browser's locale, and a character outside ASCII, by its
  name. Numbers interpolated as they are appear as the text \<open>numToString\<close> gives. An
  element has a tag, attributes and children; the inline \<open>style\<close> attributes of the
  source are left out.

  An interpolated string goes into the markup as it is, without escaping: when the markup
  is assigned to \<open>innerHTML\<close> the browser parses what the string holds along with the
  rest, and elements written inside it become elements of the page. What the parser makes
  of a template instance is a parameter of the page, below.
\<close>

datatype piece =
    Lit string
  | Val string
  | Lower string
  | LocaleNum number
  | LocaleDate string
  | Glyph string

datatype html =
    Text "piece list"
  | Elem string "(string \<times> piece list) list" "html list"

section \<open>The page and the script's globals\<close>

text \<open>
  An element of the page is named by a string: its \<open>id\<close> when it has one. The static
  page is not among the sources; the inputs and the loading, error and result regions
  that the script addresses by a constant \<open>id\<close> are taken to be there. The canvases
  are not static: they come from the markup the script assigns to a result region, and
  \<open>createChart\<close> finds a canvas only while such markup holds it.

  \<open>parseCanvases\<close> is the parser of the browser as far as the script depends on it:
  for the markup assigned to a result region, the identifiers under which
  \<open>getElementById\<close> finds a canvas in what the parser has made of it. That covers the
  canvases of the template and whatever the interpolated strings add to them or take
  away from them. Nothing is assumed of it.

  \<open>chartInstances\<close> is the global of that name, from canvas identifiers to chart
  objects. A chart object is a reference into \<open>charts\<close>, the objects constructed so
  far in the order of construction; \<open>destroyed\<close> records that its \<open>destroy()\<close> has
  run. \<open>requests\<close> are the calls of \<open>fetch\<close> made so far, \<open>console\<close> the
  arguments of the calls of \<open>console.error\<close>, an error by its message.
\<close>

record chart =
  canvas :: string
  kind :: string
  series :: json
  destroyed :: bool

record request =
  endpoint :: string
  body :: "(string \<times> json) list"

record dashboard =
  fieldValue :: "string \<Rightarrow> string"
  activeClass :: "string \<Rightarrow> bool"
  textContent :: "string \<Rightarrow> string"
  innerHTML :: "string \<Rightarrow> html list"
  tabPanels :: "string list"
  tabSelectors :: "string list"
  chartInstances :: "string \<Rightarrow> nat option"
  charts :: "chart list"
  requests :: "request list"
  console :: "string list list"
  nullMessage :: string
  parseCanvases :: "html list \<Rightarrow> string list"

text \<open>
  An exception of the script. The only one that the typed replies leave possible is the
  \<open>TypeError\<close> of reading \<open>getContext\<close> from \<open>null\<close>; its message is the
  engine's, the field \<open>nullMessage\<close> of the page.
\<close>

datatype exn = TypeError string

fun message :: "exn \<Rightarrow> string" where
  "message (TypeError m) = m"

subsection \<open>The helpers\<close>

definition addActive :: "string \<Rightarrow> dashboard \<Rightarrow> dashboard" where
  "addActive el st = st\<lparr>activeClass := (activeClass st)(el := True)\<rparr>"

definition removeActive :: "string \<Rightarrow> dashboard \<Rightarrow> dashboard" where
  "removeActive el st = st\<lparr>activeClass := (activeClass st)(el := False)\<rparr>"

definition showLoading :: "string \<Rightarrow> dashboard \<Rightarrow> dashboard" where
  "showLoading i st = addActive i st"

definition hideLoading :: "string \<Rightarrow> dashboard \<Rightarrow> dashboard" where
  "hideLoading i st = removeActive i st"

definition showError :: "string \<Rightarrow> string \<Rightarrow> dashboard \<Rightarrow> dashboard" where
  "showError i msg st = addActive i (st\<lparr>textContent := (textContent st)(i := msg)\<rparr>)"

definition hideError :: "string \<Rightarrow> dashboard \<Rightarrow> dashboard" where
  "hideError i st = removeActive i st"

definition showResults :: "string \<Rightarrow> dashboard \<Rightarrow> dashboard" where
  "showResults i st = addActive i st"

definition hideResults :: "string \<Rightarrow> dashboard \<Rightarrow> dashboard" where
  "hideResults i st = removeActive i st"

text \<open>The assignment \<open>document.getElementById(i).innerHTML = html\<close>.\<close>

definition setInnerHTML :: "string \<Rightarrow> html list \<Rightarrow> dashboard \<Rightarrow> dashboard" where
  "setInnerHTML i h st = st\<lparr>innerHTML := (innerHTML st)(i := h)\<rparr>"

text \<open>
  \<open>fetch(endpoint, {method: 'POST', ..., body: JSON.stringify(body)})\<close>: the request
  goes out when \<open>fetch\<close> is called.
\<close>

definition fetch :: "string \<Rightarrow> (string \<times> json) list \<Rightarrow> dashboard \<Rightarrow> dashboard" where
  "fetch e b st = st\<lparr>requests := requests st @ [\<lparr>endpoint = e, body = b\<rparr>]\<rparr>"

subsection \<open>Tabs\<close>

text \<open>
  \<open>tabPanels\<close> are the elements of class \<open>tab-content\<close>, \<open>tabSelectors\<close> those
  of class \<open>tab\<close>. \<open>switchTab\<close> reads the global \<open>event\<close>; its target, the
  element on which the running event was fired, is the argument \<open>eventTarget\<close>. The
  element whose \<open>id\<close> is the name of the tab followed by \<open>-tab\<close> is taken to be
  there.
\<close>

definition switchTab :: "string \<Rightarrow> string \<Rightarrow> dashboard \<Rightarrow> dashboard" where
  "switchTab eventTarget tabName st =
     addActive eventTarget
       (addActive (tabName @ ''-tab'')
          (fold removeActive (tabSelectors st) (fold removeActive (tabPanels st) st)))"

subsection \<open>Charts\<close>

text \<open>The result regions, into which the script renders markup.\<close>

definition resultRegions :: "string list" where
  "resultRegions =
     [''profileResults'', ''tweetsResults'', ''replyResults'', ''compareUsersResults'',
      ''compareTweetsResults'', ''searchResults'', ''testResults'']"

definition canvasPresent :: "dashboard \<Rightarrow> string \<Rightarrow> bool" where
  "canvasPresent st c \<longleftrightarrow>
     list_ex (\<lambda>r. c \<in> set (parseCanvases st (innerHTML st r))) resultRegions"

fun destroyAt :: "nat \<Rightarrow> chart list \<Rightarrow> chart list" where
  "destroyAt r [] = []"
| "destroyAt 0 (c # cs) = c\<lparr>destroyed := True\<rparr> # cs"
| "destroyAt (Suc r) (c # cs) = c # destroyAt r cs"

text \<open>
  \<open>createChart\<close>: a chart object registered for the canvas is destroyed; the canvas
  is looked up, and \<open>getContext\<close> of a missing one throws; the new chart is constructed
  and registered. The result is the state and the exception, if one was thrown.
\<close>

definition createChart ::
  "string \<Rightarrow> string \<Rightarrow> json \<Rightarrow> dashboard \<Rightarrow> dashboard \<times> exn option" where
  "createChart canvasId type chartData st =
     (let st1 = (case chartInstances st canvasId of
                   None \<Rightarrow> st
                 | Some r \<Rightarrow> st\<lparr>charts := destroyAt r (charts st)\<rparr>)
      in if canvasPresent st1 canvasId
         then (st1\<lparr>charts := charts st1 @
                      [\<lparr>canvas = canvasId, kind = type, series = chartData,
                        destroyed = False\<rparr>],
                    chartInstances := (chartInstances st1)(canvasId \<mapsto> length (charts st1))\<rparr>,
               None)
         else (st1, Some (TypeError (nullMessage st1))))"

text \<open>Sequencing of statements that may throw.\<close>

fun andThen ::
  "dashboard \<times> exn option \<Rightarrow> (dashboard \<Rightarrow> dashboard \<times> exn option) \<Rightarrow> dashboard \<times> exn option" where
  "andThen (st, None) f = f st"
| "andThen (st, Some e) f = (st, Some e)"

section \<open>Rendering the replies\<close>

definition el :: "string \<Rightarrow> string \<Rightarrow> html list \<Rightarrow> html" where
  "el tag cls children = Elem tag [(''class'', [Lit cls])] children"

definition canvasEl :: "string \<Rightarrow> html" where
  "canvasEl i = Elem ''canvas'' [(''id'', [Lit i])] []"

definition statCard :: "string \<Rightarrow> piece list \<Rightarrow> html" where
  "statCard title v =
     el ''div'' ''stat-card'' [Elem ''h3'' [] [Text [Lit title]], el ''div'' ''value'' [Text v]]"

definition apostrophe :: string where
  "apostrophe = [CHR 0x27]"

definition quotation :: string where
  "quotation = [CHR 0x22]"

text \<open>\<open>${x}%\<close> for a number \<open>x\<close>.\<close>

definition percent :: "number \<Rightarrow> piece list" where
  "percent x = [Val (numToString x), Lit ''%'']"

text \<open>
  The text of a sentiment badge on a tweet or on a reply:
  \<open>${sentiment} (${(confidence * 100).toFixed(1)}%)\<close>.
\<close>

definition badgeText :: "string \<Rightarrow> number \<Rightarrow> piece list" where
  "badgeText sentiment confidence =
     [Val sentiment, Lit '' ('', Val (toFixed1 (times100 confidence)), Lit ''%)'']"

text \<open>The line of the three engagement counts, each after its pictograph.\<close>

definition engagement :: "number \<Rightarrow> number \<Rightarrow> number \<Rightarrow> piece list" where
  "engagement likes retweets replies =
     [Glyph ''red heart'', Lit '' '', Val (numToString likes), Lit '' | '',
      Glyph ''repeat'', Lit '' '', Val (numToString retweets), Lit '' | '',
      Glyph ''speech balloon'', Lit '' '', Val (numToString replies)]"

definition displayUserProfile :: "userInfo \<Rightarrow> dashboard \<Rightarrow> dashboard" where
  "displayUserProfile user st =
     (let html =
        [el ''div'' ''stats-grid''
           [statCard ''Username'' [Lit ''@'', Val (ui_username user)],
            statCard ''Total Posts'' [LocaleNum (ui_tweet_count user)],
            statCard ''Followers'' [LocaleNum (ui_followers_count user)],
            statCard ''Following'' [LocaleNum (ui_following_count user)]],
         el ''div'' ''chart-container''
           [Elem ''h3'' []
              [Text [Val (ui_name user), Lit '' '',
                     (if ui_verified user then Glyph ''check mark'' else Val [])]],
            Elem ''p'' []
              [Text [Val (case ui_description user of
                            None \<Rightarrow> ''No description''
                          | Some d \<Rightarrow> if d = [] then ''No description'' else d)]],
            Elem ''p'' [] [Text [Lit ''Joined: '', LocaleDate (ui_created_at user)]]]]
      in showResults ''profileResults'' (setInnerHTML ''profileResults'' html st))"

definition tweetCard :: "string \<Rightarrow> tweet \<Rightarrow> html" where
  "tweetCard sentiment tweet =
     el ''div'' ''tweet-card''
       [Elem ''div'' []
          [Elem ''span'' [(''class'', [Lit ''sentiment-badge '', Val sentiment])]
             [Text (badgeText sentiment (t_confidence tweet))],
           Elem ''span'' [] [Text [LocaleDate (t_created_at tweet)]]],
        Elem ''p'' [] [Text [Val (t_text tweet)]],
        Elem ''div'' []
          [Text (engagement (t_likes tweet) (t_retweets tweet) (t_replies tweet)),
           Elem ''button''
             [(''class'', [Lit ''btn'']),
              (''onclick'',
               [Lit (''analyzeSpecificTweet('' @ apostrophe), Val (t_id tweet),
                Lit (apostrophe @ '')'')])]
             [Text [Lit ''Analyze Replies'']]]]"

text \<open>\<open>data.categorized[sentiment]\<close> for the three keys the loop goes through.\<close>

definition category :: "categorized \<Rightarrow> string \<Rightarrow> tweet list" where
  "category c sentiment =
     (if sentiment = ''positive'' then c_positive c
      else if sentiment = ''neutral'' then c_neutral c
      else c_negative c)"

definition sentimentSection :: "categorized \<Rightarrow> string \<Rightarrow> html list" where
  "sentimentSection c sentiment =
     (let tweets = take 5 (category c sentiment)
      in if 0 < length tweets
         then Elem ''h4'' [] [Text [Val sentiment, Lit '' Tweets:'']] #
              map (tweetCard sentiment) tweets
         else [])"

text \<open>The four cards of totals and percentages that two of the displays share.\<close>

definition totalsGrid :: "string \<Rightarrow> stats \<Rightarrow> html" where
  "totalsGrid title s =
     el ''div'' ''stats-grid''
       [statCard title [Val (numToString (s_total s))],
        statCard ''Positive'' (percent (s_positive_pct s)),
        statCard ''Neutral'' (percent (s_neutral_pct s)),
        statCard ''Negative'' (percent (s_negative_pct s))]"

definition chartGrid :: "string \<Rightarrow> string \<Rightarrow> html" where
  "chartGrid c1 c2 =
     el ''div'' ''chart-grid''
       [el ''div'' ''chart-container'' [canvasEl c1],
        el ''div'' ''chart-container'' [canvasEl c2]]"

text \<open>\<open>if (chartData) createChart(canvasId, type, chartData)\<close> for an optional series.\<close>

definition createChartIf ::
  "string \<Rightarrow> string \<Rightarrow> json option \<Rightarrow> dashboard \<Rightarrow> dashboard \<times> exn option" where
  "createChartIf canvasId type chartData st =
     (case chartData of
        None \<Rightarrow> (st, None)
      | Some j \<Rightarrow> if truthy j then createChart canvasId type j st else (st, None))"

definition displayUserTweets ::
  "userTweets \<Rightarrow> string \<Rightarrow> dashboard \<Rightarrow> dashboard \<times> exn option" where
  "displayUserTweets data username st =
     (let html =
        [Elem ''h2'' [] [Text [Lit ''@'', Val username, Lit (apostrophe @ ''s Tweet Analysis'')]],
         totalsGrid ''Total Analyzed'' (ut_stats data),
         chartGrid ''tweetsChart'' ''engagementChart'',
         Elem ''h3'' [] [Text [Lit ''Recent Tweets by Sentiment'']],
         el ''div'' ''tweets-list''
           (concat (map (sentimentSection (ut_categorized data))
              [''positive'', ''neutral'', ''negative'']))];
          st1 = showResults ''tweetsResults'' (setInnerHTML ''tweetsResults'' html st)
      in andThen (createChart ''tweetsChart'' ''pie'' (ch_pie_chart (ut_charts data)) st1)
           (createChartIf ''engagementChart'' ''bar'' (ch_engagement (ut_charts data))))"

definition replyCard :: "analyzedReply \<Rightarrow> html" where
  "replyCard reply =
     el ''div'' ''tweet-card''
       [Elem ''span'' [(''class'', [Lit ''sentiment-badge '', Lower (r_sentiment reply)])]
          [Text (badgeText (r_sentiment reply) (r_confidence reply))],
        Elem ''p'' [] [Text [Val (r_text reply)]]]"

definition noRepliesMessage :: html where
  "noRepliesMessage = Elem ''p'' [] [Text [Lit ''No replies found for this tweet.'']]"

definition replyHeader :: "tweetReplies \<Rightarrow> html list" where
  "replyHeader data =
     [el ''div'' ''chart-container''
        [Elem ''h3'' [] [Text [Lit ''Original Tweet'']],
         Elem ''p'' [] [Text [Val (o_text (tr_tweet data))]],
         Elem ''div'' []
           [Text (engagement (o_likes (tr_tweet data)) (o_retweets (tr_tweet data))
                    (o_replies (tr_tweet data)))]],
      Elem ''h3'' []
        [Text [Lit ''Reply Analysis ('',
               Val (numToString (ra_total_replies (tr_reply_analysis data))),
               Lit '' replies)'']]]"

definition replyStatistics :: "replyAnalysis \<Rightarrow> html list" where
  "replyStatistics analysis =
     (let stats = ra_sentiment_stats analysis
      in [el ''div'' ''stats-grid''
            [statCard ''Positive'' (percent (s_positive_pct stats)),
             statCard ''Neutral'' (percent (s_neutral_pct stats)),
             statCard ''Negative'' (percent (s_negative_pct stats)),
             statCard ''Avg Confidence''
               [Val (toFixed1 (times100 (s_avg_confidence stats))), Lit ''%'']],
          el ''div'' ''chart-container'' [canvasEl ''replyChart''],
          Elem ''h3'' [] [Text [Lit ''Sample Replies'']],
          el ''div'' ''tweets-list'' (map replyCard (take 10 (ra_analyzed_replies analysis)))])"

definition displayReplyAnalysis :: "tweetReplies \<Rightarrow> dashboard \<Rightarrow> dashboard \<times> exn option" where
  "displayReplyAnalysis data st =
     (let analysis = tr_reply_analysis data;
          html = replyHeader data @
            (if positive (ra_total_replies analysis) then replyStatistics analysis
             else [noRepliesMessage]);
          st1 = showResults ''replyResults'' (setInnerHTML ''replyResults'' html st)
      in case tr_charts data of
           None \<Rightarrow> (st1, None)
         | Some c \<Rightarrow> createChartIf ''replyChart'' ''pie'' (rc_sentiment_distribution c) st1)"

text \<open>The three percentages of one side of a comparison.\<close>

definition percentages :: "stats \<Rightarrow> (string \<times> piece list) list" where
  "percentages s =
     [(''Positive: '', percent (s_positive_pct s)),
      (''Neutral: '', percent (s_neutral_pct s)),
      (''Negative: '', percent (s_negative_pct s))]"

definition comparedUserCard :: "comparedUser \<Rightarrow> html" where
  "comparedUserCard u =
     el ''div'' ''chart-container''
       (Elem ''h3'' [] [Text [Lit ''@'', Val (cu_info_username u)]] #
        map (\<lambda>(label, v). Elem ''p'' [] [Text (Lit label # v)]) (percentages (cu_stats u)))"

definition displayUserComparison ::
  "userComparison \<Rightarrow> dashboard \<Rightarrow> dashboard \<times> exn option" where
  "displayUserComparison data st =
     (let html =
        [Elem ''h2'' [] [Text [Lit ''User Comparison'']],
         el ''div'' ''chart-grid''
           [el ''div'' ''chart-container''
              [Elem ''h3'' [] [Text [Lit ''Profile Metrics'']], canvasEl ''profileCompareChart''],
            el ''div'' ''chart-container''
              [Elem ''h3'' [] [Text [Lit ''Sentiment Comparison'']],
               canvasEl ''sentimentCompareChart'']],
         Elem ''div'' [] [comparedUserCard (uc_user1 data), comparedUserCard (uc_user2 data)]];
          st1 = showResults ''compareUsersResults'' (setInnerHTML ''compareUsersResults'' html st)
      in andThen (createChart ''profileCompareChart'' ''bar'' (uc_profile_comparison data) st1)
           (createChart ''sentimentCompareChart'' ''bar'' (uc_sentiment_comparison data)))"

definition comparedTweetCard :: "string \<Rightarrow> comparedTweet \<Rightarrow> html" where
  "comparedTweetCard title t =
     el ''div'' ''chart-container''
       [Elem ''h3'' [] [Text [Lit title]],
        Elem ''p'' [] [Text [Val (ct_details_text t)]],
        Elem ''p'' []
          [Text (Lit ''Positive: '' # percent (s_positive_pct (ct_stats t)) @
                 Lit '' | Neutral: '' # percent (s_neutral_pct (ct_stats t)) @
                 Lit '' | Negative: '' # percent (s_negative_pct (ct_stats t)))]]"

definition displayTweetComparison ::
  "tweetComparison \<Rightarrow> dashboard \<Rightarrow> dashboard \<times> exn option" where
  "displayTweetComparison data st =
     (let html =
        [Elem ''h2'' [] [Text [Lit ''Tweet Comparison'']],
         Elem ''div'' []
           [comparedTweetCard ''Tweet 1'' (tc_tweet1 data),
            comparedTweetCard ''Tweet 2'' (tc_tweet2 data)],
         el ''div'' ''chart-container''
           [Elem ''h3'' [] [Text [Lit ''Reply Sentiment Comparison'']],
            canvasEl ''tweetCompareChart'']];
          st1 = showResults ''compareTweetsResults''
                  (setInnerHTML ''compareTweetsResults'' html st)
      in createChart ''tweetCompareChart'' ''bar'' (tc_comparison data) st1)"

definition displaySearchResults :: "searchData \<Rightarrow> dashboard \<Rightarrow> dashboard \<times> exn option" where
  "displaySearchResults data st =
     (let html =
        [Elem ''h2'' [] [Text [Lit (''Search Results: '' @ quotation), Val (sd_query data), Lit quotation]],
         totalsGrid ''Total Tweets'' (sd_stats data),
         chartGrid ''searchPieChart'' ''searchEngagementChart''];
          st1 = showResults ''searchResults'' (setInnerHTML ''searchResults'' html st)
      in andThen (createChart ''searchPieChart'' ''pie'' (ch_pie_chart (sd_charts data)) st1)
           (createChartIf ''searchEngagementChart'' ''bar'' (ch_engagement (sd_charts data))))"

text \<open>The markup of the sentiment test; the confidence is interpolated as it is.\<close>

definition testResultHtml :: "sentimentTest \<Rightarrow> html list" where
  "testResultHtml data =
     [el ''div'' ''chart-container''
        [el ''div'' ''tweet-card''
           [Elem ''span'' [(''class'', [Lit ''sentiment-badge '', Lower (se_sentiment data)])]
              [Text [Val (se_sentiment data), Lit '' ('',
                     Val (numToString (se_confidence data)), Lit ''%)'']],
            Elem ''p'' []
              [Elem ''strong'' [] [Text [Lit ''Text:'']], Text [Lit '' '', Val (se_text data)]],
            Elem ''p'' []
              [Elem ''strong'' [] [Text [Lit ''Cleaned:'']],
               Text [Lit '' '', Val (se_cleaned_text data)]]]]]"

section \<open>The flows\<close>

text \<open>
  A flow is an \<open>async\<close> function of the source. It takes the state of the page when
  it is invoked and what awaiting the backend comes to, and gives the state when it has
  run to its end. \<open>!value\<close> holds of a string exactly when it is empty.

  The \<open>catch\<close> block that six of the flows share, with the message of the error
  caught; it is entered on a failed request and on an exception of the rendering.
\<close>

definition caught :: "string \<Rightarrow> string \<Rightarrow> string \<Rightarrow> dashboard \<Rightarrow> dashboard" where
  "caught loadingId errorId msg st = showError errorId (''Error: '' @ msg) (hideLoading loadingId st)"

text \<open>The end of the \<open>try\<close> block after a display function.\<close>

fun rendered :: "string \<Rightarrow> string \<Rightarrow> dashboard \<times> exn option \<Rightarrow> dashboard" where
  "rendered loadingId errorId (st, None) = st"
| "rendered loadingId errorId (st, Some e) = caught loadingId errorId (message e) st"

text \<open>
  The three statements before every request:
  \<open>showLoading(..); hideError(..); hideResults(..)\<close>.
\<close>

definition prepare :: "string \<Rightarrow> string \<Rightarrow> string \<Rightarrow> dashboard \<Rightarrow> dashboard" where
  "prepare loadingId errorId resultsId st =
     hideResults resultsId (hideError errorId (showLoading loadingId st))"

text \<open>
  Each flow is written in two parts, divided where the source awaits the backend: the
  function of the source's name runs from the invocation to the call of \<open>fetch\<close>,
  and hands over to the part named \<open>...Awaited\<close>, which runs from the arrival of the
  outcome to the end.
\<close>

definition getUserProfileAwaited :: "userInfo outcome \<Rightarrow> dashboard \<Rightarrow> dashboard" where
  "getUserProfileAwaited out st =
     (case out of
        Failed msg \<Rightarrow> caught ''profileLoading'' ''profileError'' msg st
      | Reply data \<Rightarrow>
          (let st1 = hideLoading ''profileLoading'' st
           in if success data then displayUserProfile (payload data) st1
              else showError ''profileError'' (error data) st1))"

definition getUserProfile :: "userInfo outcome \<Rightarrow> dashboard \<Rightarrow> dashboard" where
  "getUserProfile out st =
     (let username = fieldValue st ''profileUsername''
      in if username = [] then showError ''profileError'' ''Please enter a username'' st
         else getUserProfileAwaited out
                (fetch ''/api/user-info'' [(''username'', JStr username)]
                   (prepare ''profileLoading'' ''profileError'' ''profileResults'' st)))"

definition getUserTweetsAwaited :: "string \<Rightarrow> userTweets outcome \<Rightarrow> dashboard \<Rightarrow> dashboard" where
  "getUserTweetsAwaited username out st =
     (case out of
        Failed msg \<Rightarrow> caught ''tweetsLoading'' ''tweetsError'' msg st
      | Reply data \<Rightarrow>
          (let st1 = hideLoading ''tweetsLoading'' st
           in if success data
              then rendered ''tweetsLoading'' ''tweetsError''
                     (displayUserTweets (payload data) username st1)
              else showError ''tweetsError'' (error data) st1))"

definition getUserTweets :: "userTweets outcome \<Rightarrow> dashboard \<Rightarrow> dashboard" where
  "getUserTweets out st =
     (let username = fieldValue st ''tweetsUsername'';
          maxResults = fieldValue st ''tweetsMax''
      in if username = [] then showError ''tweetsError'' ''Please enter a username'' st
         else getUserTweetsAwaited username out
                (fetch ''/api/user-tweets''
                   [(''username'', JStr username), (''max_results'', JStr maxResults)]
                   (prepare ''tweetsLoading'' ''tweetsError'' ''tweetsResults'' st)))"

definition analyzeRepliesAwaited :: "tweetReplies outcome \<Rightarrow> dashboard \<Rightarrow> dashboard" where
  "analyzeRepliesAwaited out st =
     (case out of
        Failed msg \<Rightarrow> caught ''replyLoading'' ''replyError'' msg st
      | Reply data \<Rightarrow>
          (let st1 = hideLoading ''replyLoading'' st
           in if success data
              then rendered ''replyLoading'' ''replyError''
                     (displayReplyAnalysis (payload data) st1)
              else showError ''replyError'' (error data) st1))"

definition analyzeReplies :: "tweetReplies outcome \<Rightarrow> dashboard \<Rightarrow> dashboard" where
  "analyzeReplies out st =
     (let input = fieldValue st ''replyTweetId'';
          tweetId = extractTweetId input
      in if tweetId = [] then showError ''replyError'' ''Please enter a tweet ID or URL'' st
         else analyzeRepliesAwaited out
                (fetch ''/api/tweet-replies'' [(''tweet_id'', JStr tweetId)]
                   (prepare ''replyLoading'' ''replyError'' ''replyResults'' st)))"

text \<open>
  \<open>analyzeSpecificTweet\<close> is the handler of the button \<open>Analyze Replies\<close> of a tweet
  card; the event that is running when it calls \<open>switchTab\<close> is the click on that
  button.
\<close>

definition analyzeSpecificTweet ::
  "string \<Rightarrow> string \<Rightarrow> tweetReplies outcome \<Rightarrow> dashboard \<Rightarrow> dashboard" where
  "analyzeSpecificTweet eventTarget tweetId out st =
     analyzeReplies out
       (switchTab eventTarget ''reply-analysis''
          (st\<lparr>fieldValue := (fieldValue st)(''replyTweetId'' := tweetId)\<rparr>))"

definition compareUsersAwaited :: "userComparison outcome \<Rightarrow> dashboard \<Rightarrow> dashboard" where
  "compareUsersAwaited out st =
     (case out of
        Failed msg \<Rightarrow> caught ''compareUsersLoading'' ''compareUsersError'' msg st
      | Reply data \<Rightarrow>
          (let st1 = hideLoading ''compareUsersLoading'' st
           in if success data
              then rendered ''compareUsersLoading'' ''compareUsersError''
                     (displayUserComparison (payload data) st1)
              else showError ''compareUsersError'' (error data) st1))"

definition compareUsers :: "userComparison outcome \<Rightarrow> dashboard \<Rightarrow> dashboard" where
  "compareUsers out st =
     (let user1 = fieldValue st ''compareUser1'';
          user2 = fieldValue st ''compareUser2''
      in if user1 = [] \<or> user2 = []
         then showError ''compareUsersError'' ''Please enter both usernames'' st
         else compareUsersAwaited out
                (fetch ''/api/compare-users''
                   [(''username1'', JStr user1), (''username2'', JStr user2),
                    (''max_tweets'', JNum (numberOfInt 50))]
                   (prepare ''compareUsersLoading'' ''compareUsersError''
                      ''compareUsersResults'' st)))"

definition compareTweetsAwaited :: "tweetComparison outcome \<Rightarrow> dashboard \<Rightarrow> dashboard" where
  "compareTweetsAwaited out st =
     (case out of
        Failed msg \<Rightarrow> caught ''compareTweetsLoading'' ''compareTweetsError'' msg st
      | Reply data \<Rightarrow>
          (let st1 = hideLoading ''compareTweetsLoading'' st
           in if success data
              then rendered ''compareTweetsLoading'' ''compareTweetsError''
                     (displayTweetComparison (payload data) st1)
              else showError ''compareTweetsError'' (error data) st1))"

definition compareTweets :: "tweetComparison outcome \<Rightarrow> dashboard \<Rightarrow> dashboard" where
  "compareTweets out st =
     (let tweet1 = extractTweetId (fieldValue st ''compareTweet1'');
          tweet2 = extractTweetId (fieldValue st ''compareTweet2'')
      in if tweet1 = [] \<or> tweet2 = []
         then showError ''compareTweetsError'' ''Please enter both tweet IDs'' st
         else compareTweetsAwaited out
                (fetch ''/api/compare-tweets''
                   [(''tweet_id1'', JStr tweet1), (''tweet_id2'', JStr tweet2)]
                   (prepare ''compareTweetsLoading'' ''compareTweetsError''
                      ''compareTweetsResults'' st)))"

definition searchAndAnalyzeAwaited :: "searchData outcome \<Rightarrow> dashboard \<Rightarrow> dashboard" where
  "searchAndAnalyzeAwaited out st =
     (case out of
        Failed msg \<Rightarrow> caught ''searchLoading'' ''searchError'' msg st
      | Reply data \<Rightarrow>
          (let st1 = hideLoading ''searchLoading'' st
           in if success data
              then rendered ''searchLoading'' ''searchError''
                     (displaySearchResults (payload data) st1)
              else showError ''searchError'' (error data) st1))"

definition searchAndAnalyze :: "searchData outcome \<Rightarrow> dashboard \<Rightarrow> dashboard" where
  "searchAndAnalyze out st =
     (let query = fieldValue st ''searchQuery'';
          maxResults = fieldValue st ''searchMax''
      in if query = [] then showError ''searchError'' ''Please enter a search query'' st
         else searchAndAnalyzeAwaited out
                (fetch ''/api/search-analyze''
                   [(''query'', JStr query), (''max_results'', JStr maxResults)]
                   (prepare ''searchLoading'' ''searchError'' ''searchResults'' st)))"

text \<open>
  The sentiment test has no loading and no error region: on an empty text it returns at
  once, on a reply that reports a failure it does nothing, and a failed request goes to
  the console.
\<close>

definition testSentimentAwaited :: "sentimentTest outcome \<Rightarrow> dashboard \<Rightarrow> dashboard" where
  "testSentimentAwaited out st =
     (case out of
        Failed msg \<Rightarrow> st\<lparr>console := console st @ [[''Error:'', msg]]\<rparr>
      | Reply data \<Rightarrow>
          if success data
          then showResults ''testResults''
                 (setInnerHTML ''testResults'' (testResultHtml (payload data)) st)
          else st)"

definition testSentiment :: "sentimentTest outcome \<Rightarrow> dashboard \<Rightarrow> dashboard" where
  "testSentiment out st =
     (let text = fieldValue st ''testText''
      in if text = [] then st
         else testSentimentAwaited out (fetch ''/api/test-sentiment'' [(''text'', JStr text)] st))"

section \<open>Notions of the specification and example pages\<close>

text \<open>
  A blank value: not empty, and made of white space only (space, tab, line feed, vertical
  tab, form feed, carriage return).
\<close>

definition isSpace :: "char \<Rightarrow> bool" where
  "isSpace c \<longleftrightarrow> c \<in> set [CHR '' '', CHR 0x09, CHR 0x0A, CHR 0x0B, CHR 0x0C, CHR 0x0D]"

definition blank :: "string \<Rightarrow> bool" where
  "blank v \<longleftrightarrow> v \<noteq> [] \<and> (\<forall>c\<in>set v. isSpace c)"

text \<open>
  The parser of the example pages. It finds the canvases that the template writes and, in
  the interpolated strings of a text, every start tag written as \<open><canvas id=name\<close>
  with the name ending at a space or at \<open>>\<close>. On the markup of the examples below it
  is what a browser does.
\<close>

fun scanCanvases :: "string \<Rightarrow> string list" where
  "scanCanvases [] = []"
| "scanCanvases (c # cs) =
     (case stripPrefix ''<canvas id='' (c # cs) of
        None \<Rightarrow> []
      | Some r \<Rightarrow> [takeWhile (\<lambda>x. x \<notin> set '' >'') r]) @ scanCanvases cs"

fun pieceCanvases :: "piece \<Rightarrow> string list" where
  "pieceCanvases (Val s) = scanCanvases s"
| "pieceCanvases p = []"

fun canvasesOf :: "html \<Rightarrow> string list" where
  "canvasesOf (Text ps) = concat (map pieceCanvases ps)"
| "canvasesOf (Elem tag attrs children) =
     (if tag = ''canvas''
      then (case map_of attrs ''id'' of Some [Lit i] \<Rightarrow> [i] | _ \<Rightarrow> [])
      else []) @ concat (map canvasesOf children)"

text \<open>
  A page as it is loaded: every input empty, no text and no markup in any region, the
  first of three tabs active, no chart yet. The examples below start from it.
\<close>

definition examplePage :: dashboard where
  "examplePage =
     \<lparr>fieldValue = (\<lambda>i. []),
      activeClass = (\<lambda>e. e = ''profile-tab'' \<or> e = ''profile-selector''),
      textContent = (\<lambda>i. []),
      innerHTML = (\<lambda>i. []),
      tabPanels = [''profile-tab'', ''tweets-tab'', ''reply-analysis-tab''],
      tabSelectors = [''profile-selector'', ''tweets-selector'', ''reply-analysis-selector''],
      chartInstances = (\<lambda>c. None),
      charts = [],
      requests = [],
      console = [],
      nullMessage = ''Cannot read properties of null'',
      parseCanvases = (\<lambda>h. concat (map canvasesOf h))\<rparr>"

text \<open>Replies for the examples.\<close>

definition exampleSentiment :: sentimentTest where
  "exampleSentiment =
     \<lparr>se_sentiment = ''Positive'', se_confidence = numberOfInt 92,
      se_text = ''Great day!'', se_cleaned_text = ''great day''\<rparr>"

definition exampleFailure :: "'a \<Rightarrow> 'a reply" where
  "exampleFailure p = \<lparr>success = False, error = ''X'', payload = p\<rparr>"

definition exampleInfo :: userInfo where
  "exampleInfo =
     \<lparr>ui_username = ''ada'', ui_tweet_count = numberOfInt 12,
      ui_followers_count = numberOfInt 3400, ui_following_count = numberOfInt 5,
      ui_name = ''Ada'', ui_verified = True, ui_description = None,
      ui_created_at = ''2020-01-01''\<rparr>"

text \<open>
  The state in which a request has gone out after a passed validation: the request is
  the last one of the log, and the error region of the flow is not shown.
\<close>

definition issued ::
  "dashboard \<Rightarrow> string \<Rightarrow> string \<Rightarrow> (string \<times> json) list \<Rightarrow> dashboard \<Rightarrow> bool" where
  "issued st errorId e b st' \<longleftrightarrow>
     requests st' = requests st @ [\<lparr>endpoint = e, body = b\<rparr>] \<and> \<not> activeClass st' errorId"

section \<open>States of a running page\<close>

text \<open>The chart objects for a canvas identifier that have not been destroyed.\<close>

definition liveCharts :: "dashboard \<Rightarrow> string \<Rightarrow> chart list" where
  "liveCharts st c = filter (\<lambda>ch. canvas ch = c \<and> \<not> destroyed ch) (charts st)"

text \<open>
  The registry accounts for every live chart: a chart object that has not been destroyed
  is the one registered for its canvas, and what is registered for a canvas is a chart
  object constructed for that canvas.
\<close>

definition registered :: "dashboard \<Rightarrow> bool" where
  "registered st \<longleftrightarrow>
     (\<forall>r<length (charts st).
        \<not> destroyed (charts st ! r) \<longrightarrow>
        chartInstances st (canvas (charts st ! r)) = Some r) \<and>
     (\<forall>c r. chartInstances st c = Some r \<longrightarrow>
        r < length (charts st) \<and> canvas (charts st ! r) = c)"

text \<open>
  A page as the browser has loaded it: \<open>chartInstances = {}\<close> and no chart object.
\<close>

definition loaded :: "dashboard \<Rightarrow> bool" where
  "loaded st \<longleftrightarrow> charts st = [] \<and> chartInstances st = (\<lambda>c. None)"

text \<open>
  The states that a page goes through. The user edits the inputs; a handler runs the part
  of a flow before its request (a validation message, or the preparation and the
  request); the outcome of a request arrives and the awaited part of its flow runs, at any
  later moment and in any order with the other flows; a tab is switched. The flows
  themselves, and \<open>analyzeSpecificTweet\<close>, are compositions of these steps.
\<close>

inductive reachable :: "dashboard \<Rightarrow> bool" where
  onLoad: "loaded st \<Longrightarrow> reachable st"
| edit: "reachable st \<Longrightarrow> reachable (st\<lparr>fieldValue := f\<rparr>)"
| invalid: "reachable st \<Longrightarrow> reachable (showError errorId msg st)"
| request:
    "reachable st \<Longrightarrow> reachable (fetch e b (prepare loadingId errorId resultsId st))"
| requestTest: "reachable st \<Longrightarrow> reachable (fetch e b st)"
| tab: "reachable st \<Longrightarrow> reachable (switchTab eventTarget tabName st)"
| profile: "reachable st \<Longrightarrow> reachable (getUserProfileAwaited o1 st)"
| tweets: "reachable st \<Longrightarrow> reachable (getUserTweetsAwaited username o2 st)"
| replies: "reachable st \<Longrightarrow> reachable (analyzeRepliesAwaited o3 st)"
| users: "reachable st \<Longrightarrow> reachable (compareUsersAwaited o4 st)"
| twoTweets: "reachable st \<Longrightarrow> reachable (compareTweetsAwaited o5 st)"
| search: "reachable st \<Longrightarrow> reachable (searchAndAnalyzeAwaited o6 st)"
| test: "reachable st \<Longrightarrow> reachable (testSentimentAwaited o7 st)"

definition exampleStats :: stats where
  "exampleStats =
     \<lparr>s_total = numberOfInt 0, s_positive_pct = numberOfInt 0, s_neutral_pct = numberOfInt 0,
      s_negative_pct = numberOfInt 0, s_avg_confidence = numberOfInt 0\<rparr>"

definition exampleComparison :: tweetComparison where
  "exampleComparison =
     \<lparr>tc_tweet1 = \<lparr>ct_details_text = ''first'', ct_stats = exampleStats\<rparr>,
      tc_tweet2 = \<lparr>ct_details_text = ''second'', ct_stats = exampleStats\<rparr>,
      tc_comparison = JObj []\<rparr>"

text \<open>A reply analysis without replies that still carries a series for the chart.\<close>

definition exampleNoReplies :: tweetReplies where
  "exampleNoReplies =
     \<lparr>tr_tweet = \<lparr>o_text = ''hello'', o_likes = numberOfInt 0, o_retweets = numberOfInt 0,
                  o_replies = numberOfInt 0\<rparr>,
      tr_reply_analysis =
        \<lparr>ra_total_replies = numberOfInt 0, ra_sentiment_stats = exampleStats,
         ra_analyzed_replies = []\<rparr>,
      tr_charts = Some \<lparr>rc_sentiment_distribution = Some (JObj [])\<rparr>\<rparr>"

text \<open>The example page after every input has been filled with \<open>1\<close>.\<close>

definition filledPage :: dashboard where
  "filledPage = examplePage\<lparr>fieldValue := (\<lambda>i. ''1'')\<rparr>"

text \<open>The filled page after one comparison of tweets has been rendered.\<close>

definition comparedPage :: dashboard where
  "comparedPage =
     compareTweets (Reply \<lparr>success = True, error = [], payload = exampleComparison\<rparr>) filledPage"

text \<open>The example page after a profile has been rendered into its result region.\<close>

definition shownPage :: dashboard where
  "shownPage = displayUserProfile exampleInfo examplePage"

text \<open>
  Two pages for the comparison of users: the first user name a single space on both, the
  second user name \<open>bob\<close> on one and empty on the other.
\<close>

definition spaceAndBobPage :: dashboard where
  "spaceAndBobPage =
     examplePage\<lparr>fieldValue := (\<lambda>i. if i = ''compareUser2'' then ''bob'' else '' '')\<rparr>"

definition spaceAndEmptyPage :: dashboard where
  "spaceAndEmptyPage =
     examplePage\<lparr>fieldValue := (\<lambda>i. if i = ''compareUser1'' then '' '' else [])\<rparr>"

text \<open>
  The series that \<open>displayReplyAnalysis\<close> hands to \<open>createChart\<close>: the value of
  \<open>data.charts.sentiment_distribution\<close> when \<open>data.charts\<close> is there and the value
  is one that \<open>if\<close> takes for true.
\<close>

definition chartSeries :: "tweetReplies \<Rightarrow> json option" where
  "chartSeries data =
     (case tr_charts data of
        None \<Rightarrow> None
      | Some c \<Rightarrow>
          (case rc_sentiment_distribution c of
             None \<Rightarrow> None
           | Some j \<Rightarrow> if truthy j then Some j else None))"

text \<open>The analysis without replies, without a series for the chart.\<close>

definition exampleNoSeries :: tweetReplies where
  "exampleNoSeries = exampleNoReplies\<lparr>tr_charts := None\<rparr>"

text \<open>
  The analysis without replies of a tweet whose text is the markup of a canvas with the
  identifier of the chart of the replies.
\<close>

definition exampleInjected :: tweetReplies where
  "exampleInjected =
     exampleNoReplies\<lparr>tr_tweet := (tr_tweet exampleNoReplies)
       \<lparr>o_text := ''<canvas id=replyChart></canvas>''\<rparr>\<rparr>"

section \<open>Properties of the tweet identifier\<close>

lemma stripPrefix_Some: "stripPrefix p s = Some r \<longleftrightarrow> s = p @ r"
  by (induction p s rule: stripPrefix.induct) auto

lemma stripPrefix_None: "stripPrefix p s = None \<longleftrightarrow> take (length p) s \<noteq> p"
  by (induction p s rule: stripPrefix.induct) auto

lemma matchHere_Some:
  "matchHere s = Some d \<longleftrightarrow> statusDigitsAt s 0 \<and> d = takeWhile isDigit (drop 7 s)"
proof (cases "stripPrefix ''status/'' s")
  case None
  then have "take 7 s \<noteq> ''status/''"
    by (simp add: stripPrefix_None eval_nat_numeral)
  then show ?thesis
    by (simp add: matchHere_def statusDigitsAt_def None)
next
  case (Some r)
  then have s: "s = ''status/'' @ r" by (simp add: stripPrefix_Some)
  show ?thesis
    by (cases r) (auto simp: matchHere_def Some s statusDigitsAt_def Let_def)
qed

lemma matchHere_None: "matchHere s = None \<longleftrightarrow> \<not> statusDigitsAt s 0"
  using matchHere_Some [of s] by (cases "matchHere s") auto

lemma statusDigitsAt_Suc: "statusDigitsAt (c # cs) (Suc i) = statusDigitsAt cs i"
  by (simp add: statusDigitsAt_def)

lemma statusDigitsAt_length: "statusDigitsAt s i \<Longrightarrow> i < length s"
  by (cases "i < length s") (auto simp: statusDigitsAt_def)

lemma regexMatch_None: "regexMatch s = None \<longleftrightarrow> (\<forall>i. \<not> statusDigitsAt s i)"
proof (induction s)
  case Nil
  then show ?case by (auto simp: matchHere_None statusDigitsAt_def)
next
  case (Cons c cs)
  show ?case
  proof (cases "matchHere (c # cs)")
    case None
    then have "\<not> statusDigitsAt (c # cs) 0" by (simp add: matchHere_None)
    then have "(\<forall>i. \<not> statusDigitsAt (c # cs) i) \<longleftrightarrow> (\<forall>i. \<not> statusDigitsAt cs i)"
      by (metis statusDigitsAt_Suc not0_implies_Suc)
    with None Cons show ?thesis by simp
  next
    case (Some d)
    then have "statusDigitsAt (c # cs) 0" by (simp add: matchHere_Some)
    with Some show ?thesis by auto
  qed
qed

lemma regexMatch_first:
  "statusDigitsAt s i \<Longrightarrow> \<forall>j<i. \<not> statusDigitsAt s j \<Longrightarrow>
   regexMatch s = Some (takeWhile isDigit (drop 7 (drop i s)))"
proof (induction s arbitrary: i)
  case Nil
  then show ?case by (simp add: statusDigitsAt_def)
next
  case (Cons c cs)
  show ?case
  proof (cases i)
    case 0
    with Cons.prems have "matchHere (c # cs) = Some (takeWhile isDigit (drop 7 (c # cs)))"
      by (simp add: matchHere_Some)
    with 0 show ?thesis by simp
  next
    case (Suc k)
    with Cons.prems have n0: "\<not> statusDigitsAt (c # cs) 0" by blast
    from Suc Cons.prems have k: "statusDigitsAt cs k" by (simp add: statusDigitsAt_Suc)
    have "\<forall>j<k. \<not> statusDigitsAt cs j"
    proof (intro allI impI)
      fix j assume "j < k"
      then have "Suc j < i" using Suc by simp
      with Cons.prems have "\<not> statusDigitsAt (c # cs) (Suc j)" by blast
      then show "\<not> statusDigitsAt cs j" by (simp add: statusDigitsAt_Suc)
    qed
    with k have "regexMatch cs = Some (takeWhile isDigit (drop 7 (drop k cs)))"
      by (rule Cons.IH)
    with n0 Suc show ?thesis by (simp add: matchHere_None [symmetric])
  qed
qed

lemma regexMatch_digits: "\<forall>c\<in>set d. isDigit c \<Longrightarrow> regexMatch d = None"
  by (induction d) (auto simp: matchHere_def isDigit_def)

lemma extractTweetId_None: "regexMatch s = None \<Longrightarrow> extractTweetId s = s"
  by (simp add: extractTweetId_def)

text \<open>
  Claim C1. When \<open>status/\<close> followed at once by a digit occurs in the input,
  \<open>extractTweetId\<close> returns the whole run of digits after the first such
  occurrence; when there is no such occurrence it returns the input unchanged. The URL
  \<open>https://x.com/user/status/12345\<close> yields \<open>12345\<close>, the bare identifier
  \<open>12345\<close> is returned as it is, and \<open>status/\<close> followed only by characters
  that are not digits is returned as it is.
\<close>

theorem extractTweetId_spec:
  "(statusDigitsAt s i \<and> (\<forall>j<i. \<not> statusDigitsAt s j) \<longrightarrow>
      extractTweetId s = takeWhile isDigit (drop (i + 7) s)) \<and>
   ((\<forall>i<length s. \<not> statusDigitsAt s i) \<longrightarrow> extractTweetId s = s) \<and>
   extractTweetId ''https://x.com/user/status/12345'' = ''12345'' \<and>
   extractTweetId ''12345'' = ''12345'' \<and>
   ((\<forall>c\<in>set r. \<not> isDigit c) \<longrightarrow> extractTweetId (''status/'' @ r) = ''status/'' @ r)"
proof (intro conjI impI)
  assume "statusDigitsAt s i \<and> (\<forall>j<i. \<not> statusDigitsAt s j)"
  then have "regexMatch s = Some (takeWhile isDigit (drop 7 (drop i s)))"
    by (blast intro: regexMatch_first)
  then show "extractTweetId s = takeWhile isDigit (drop (i + 7) s)"
    by (simp add: extractTweetId_def add.commute)
next
  assume "\<forall>i<length s. \<not> statusDigitsAt s i"
  then have "\<forall>i. \<not> statusDigitsAt s i" using statusDigitsAt_length by blast
  then show "extractTweetId s = s"
    by (simp add: extractTweetId_def regexMatch_None [symmetric])
next
  show "extractTweetId ''https://x.com/user/status/12345'' = ''12345''"
    by (simp add: extractTweetId_def matchHere_def isDigit_def)
next
  show "extractTweetId ''12345'' = ''12345''"
    by (simp add: extractTweetId_def matchHere_def isDigit_def)
next
  assume nd: "\<forall>c\<in>set r. \<not> isDigit c"
  have "\<not> statusDigitsAt (''status/'' @ r) i" for i
  proof
    assume a: "statusDigitsAt (''status/'' @ r) i"
    then obtain c cs where d: "drop 7 (drop i (''status/'' @ r)) = c # cs" and c: "isDigit c"
      by (auto simp: statusDigitsAt_def split: list.splits)
    have "drop 7 (drop i (''status/'' @ r)) = drop i r"
      by (simp add: eval_nat_numeral)
    then have "set (drop 7 (drop i (''status/'' @ r))) \<subseteq> set r"
      by (simp add: set_drop_subset)
    with d have "c \<in> set r" by auto
    with nd c show False by blast
  qed
  then have "regexMatch (''status/'' @ r) = None"
    by (simp only: regexMatch_None not_False_eq_True simp_thms)
  then show "extractTweetId (''status/'' @ r) = ''status/'' @ r"
    by (rule extractTweetId_None)
qed

theorem extractTweetId_spec_witness:
  "statusDigitsAt ''status/a status/42b'' 9 \<and>
   \<not> statusDigitsAt ''status/a status/42b'' 0 \<and>
   extractTweetId ''status/a status/42b'' = ''42'' \<and>
   \<not> statusDigitsAt ''tweet 7'' 0 \<and>
   extractTweetId ''tweet 7'' = ''tweet 7'' \<and>
   \<not> isDigit CHR ''a'' \<and>
   extractTweetId ''status/abc'' = ''status/abc''"
proof -
  have a: "statusDigitsAt ''status/a status/42b'' 9"
    by (simp add: statusDigitsAt_def isDigit_def)
  have b: "\<forall>j<9. \<not> statusDigitsAt ''status/a status/42b'' j"
    by (simp add: statusDigitsAt_def isDigit_def less_Suc_eq eval_nat_numeral)
  have c: "\<forall>i<length ''tweet 7''. \<not> statusDigitsAt ''tweet 7'' i"
    by (simp add: statusDigitsAt_def isDigit_def less_Suc_eq eval_nat_numeral)
  have d: "\<forall>c\<in>set ''abc''. \<not> isDigit c"
    by (simp add: isDigit_def)
  have e: "takeWhile isDigit (drop (9 + 7) ''status/a status/42b'') = ''42''"
    by (simp add: isDigit_def)
  have f: "\<not> statusDigitsAt ''status/a status/42b'' 0 \<and> \<not> statusDigitsAt ''tweet 7'' 0"
    using b c by simp
  show ?thesis
    using extractTweetId_spec [of "''status/a status/42b''" 9 "''abc''"]
      extractTweetId_spec [of "''tweet 7''" 0 "''abc''"] a b c d e f
    by simp
qed

text \<open>
  Claim C9. \<open>extractTweetId\<close> is idempotent: a result is either the input itself,
  found to have no match, or a run of digits, in which no match can start.
\<close>

theorem extractTweetId_idempotent:
  "extractTweetId (extractTweetId s) = extractTweetId s"
proof (cases "regexMatch s")
  case None
  then show ?thesis by (simp add: extractTweetId_def)
next
  case (Some d)
  have "regexMatch s = Some d \<Longrightarrow> \<forall>c\<in>set d. isDigit c"
  proof (induction s)
    case Nil
    then show ?case by (simp add: matchHere_def)
  next
    case (Cons c cs)
    then show ?case
      by (cases "matchHere (c # cs)") (auto simp: matchHere_Some dest: set_takeWhileD)
  qed
  with Some have "regexMatch d = None" by (simp add: regexMatch_digits)
  with Some show ?thesis by (simp add: extractTweetId_def)
qed

section \<open>Validation, failure replies and the request of the comparison\<close>

lemmas helper_defs = addActive_def removeActive_def showLoading_def hideLoading_def
  showError_def hideError_def showResults_def hideResults_def setInnerHTML_def fetch_def
  prepare_def caught_def

lemma regexMatch_nonempty: "regexMatch s = Some d \<Longrightarrow> d \<noteq> []"
proof (induction s)
  case Nil
  then show ?case by (simp add: matchHere_def)
next
  case (Cons c cs)
  then show ?case
    by (cases "matchHere (c # cs)") (auto simp: matchHere_def Let_def split: option.splits if_splits)
qed

lemma extractTweetId_Nil_iff: "extractTweetId s = [] \<longleftrightarrow> s = []"
proof (cases "regexMatch s")
  case None
  then show ?thesis by (simp add: extractTweetId_def)
next
  case (Some d)
  then have "s \<noteq> []" by (auto simp: matchHere_def)
  with Some regexMatch_nonempty [OF Some] show ?thesis by (simp add: extractTweetId_def)
qed

lemma regexMatch_spaces: "\<forall>c\<in>set v. isSpace c \<Longrightarrow> regexMatch v = None"
  by (induction v) (auto simp: matchHere_def isSpace_def)

lemma extractTweetId_blank: "blank v \<Longrightarrow> extractTweetId v = v"
  by (simp add: blank_def extractTweetId_def regexMatch_spaces)

text \<open>
  Claim C2, amended. In each of the six flows that have an error region, an empty
  required field ends the flow at once: the state is the state of the invocation with the
  validation message shown in the error region of the flow, and no request has been
  issued. The sentiment test with an empty text returns at once and leaves the state as
  it is: no request, and no message.
\<close>

theorem validation_aborts:
  "(fieldValue st ''profileUsername'' = [] \<longrightarrow>
      getUserProfile o1 st = showError ''profileError'' ''Please enter a username'' st) \<and>
   (fieldValue st ''tweetsUsername'' = [] \<longrightarrow>
      getUserTweets o2 st = showError ''tweetsError'' ''Please enter a username'' st) \<and>
   (fieldValue st ''replyTweetId'' = [] \<longrightarrow>
      analyzeReplies o3 st = showError ''replyError'' ''Please enter a tweet ID or URL'' st) \<and>
   (fieldValue st ''compareUser1'' = [] \<or> fieldValue st ''compareUser2'' = [] \<longrightarrow>
      compareUsers o4 st = showError ''compareUsersError'' ''Please enter both usernames'' st) \<and>
   (fieldValue st ''compareTweet1'' = [] \<or> fieldValue st ''compareTweet2'' = [] \<longrightarrow>
      compareTweets o5 st = showError ''compareTweetsError'' ''Please enter both tweet IDs'' st) \<and>
   (fieldValue st ''searchQuery'' = [] \<longrightarrow>
      searchAndAnalyze o6 st = showError ''searchError'' ''Please enter a search query'' st) \<and>
   (fieldValue st ''testText'' = [] \<longrightarrow> testSentiment o7 st = st) \<and>
   requests (showError errorId msg st) = requests st \<and>
   activeClass (showError errorId msg st) errorId \<and>
   textContent (showError errorId msg st) errorId = msg"
  by (simp add: getUserProfile_def getUserTweets_def analyzeReplies_def compareUsers_def
        compareTweets_def searchAndAnalyze_def testSentiment_def extractTweetId_Nil_iff
        showError_def addActive_def Let_def)

theorem validation_aborts_witness:
  "fieldValue examplePage ''profileUsername'' = [] \<and>
   getUserProfile (Failed []) examplePage =
     showError ''profileError'' ''Please enter a username'' examplePage \<and>
   compareUsers (Failed []) examplePage =
     showError ''compareUsersError'' ''Please enter both usernames'' examplePage \<and>
   testSentiment (Failed []) examplePage = examplePage \<and>
   requests (getUserProfile (Failed []) examplePage) = []"
proof -
  have e: "fieldValue examplePage i = []" for i
    by (simp add: examplePage_def)
  have r: "requests examplePage = []"
    by (simp add: examplePage_def)
  from validation_aborts [of examplePage "Failed []" "Failed []" "Failed []" "Failed []"
      "Failed []" "Failed []" "Failed []" "''profileError''" "''Please enter a username''"]
  show ?thesis by (simp add: e r)
qed

text \<open>
  Claim C2 as stated fails for the sentiment test: invoked on the example page, whose
  text field is empty, it leaves the page as it is, without any text in any element.
\<close>

theorem testSentiment_empty_shows_nothing:
  "fieldValue examplePage ''testText'' = [] \<and>
   testSentiment (Failed []) examplePage = examplePage \<and>
   textContent (testSentiment (Failed []) examplePage) = (\<lambda>e. [])"
  by (simp add: testSentiment_def examplePage_def)

lemmas flow_defs = getUserProfile_def getUserTweets_def analyzeReplies_def compareUsers_def
  compareTweets_def searchAndAnalyze_def testSentiment_def
  getUserProfileAwaited_def getUserTweetsAwaited_def analyzeRepliesAwaited_def
  compareUsersAwaited_def compareTweetsAwaited_def searchAndAnalyzeAwaited_def
  testSentimentAwaited_def

text \<open>
  Claim C3, amended. When a reply whose success flag is false arrives, in whatever state
  of the page, each of the six flows that have an error region puts exactly the error
  text of the reply into its error region and shows that region, and populates no result
  region: no markup of any region changes, and the result region of the flow keeps the
  visibility it had. The sentiment test displays nothing on such a reply: texts, markup
  and visibility are what they were.
\<close>

theorem failure_reply_shown:
  "(\<not> success d1 \<longrightarrow>
      textContent (getUserProfileAwaited (Reply d1) st) ''profileError'' = error d1 \<and>
      activeClass (getUserProfileAwaited (Reply d1) st) ''profileError'' \<and>
      innerHTML (getUserProfileAwaited (Reply d1) st) = innerHTML st \<and>
      activeClass (getUserProfileAwaited (Reply d1) st) ''profileResults'' =
        activeClass st ''profileResults'') \<and>
   (\<not> success d2 \<longrightarrow>
      textContent (getUserTweetsAwaited u (Reply d2) st) ''tweetsError'' = error d2 \<and>
      activeClass (getUserTweetsAwaited u (Reply d2) st) ''tweetsError'' \<and>
      innerHTML (getUserTweetsAwaited u (Reply d2) st) = innerHTML st \<and>
      activeClass (getUserTweetsAwaited u (Reply d2) st) ''tweetsResults'' =
        activeClass st ''tweetsResults'') \<and>
   (\<not> success d3 \<longrightarrow>
      textContent (analyzeRepliesAwaited (Reply d3) st) ''replyError'' = error d3 \<and>
      activeClass (analyzeRepliesAwaited (Reply d3) st) ''replyError'' \<and>
      innerHTML (analyzeRepliesAwaited (Reply d3) st) = innerHTML st \<and>
      activeClass (analyzeRepliesAwaited (Reply d3) st) ''replyResults'' =
        activeClass st ''replyResults'') \<and>
   (\<not> success d4 \<longrightarrow>
      textContent (compareUsersAwaited (Reply d4) st) ''compareUsersError'' = error d4 \<and>
      activeClass (compareUsersAwaited (Reply d4) st) ''compareUsersError'' \<and>
      innerHTML (compareUsersAwaited (Reply d4) st) = innerHTML st \<and>
      activeClass (compareUsersAwaited (Reply d4) st) ''compareUsersResults'' =
        activeClass st ''compareUsersResults'') \<and>
   (\<not> success d5 \<longrightarrow>
      textContent (compareTweetsAwaited (Reply d5) st) ''compareTweetsError'' = error d5 \<and>
      activeClass (compareTweetsAwaited (Reply d5) st) ''compareTweetsError'' \<and>
      innerHTML (compareTweetsAwaited (Reply d5) st) = innerHTML st \<and>
      activeClass (compareTweetsAwaited (Reply d5) st) ''compareTweetsResults'' =
        activeClass st ''compareTweetsResults'') \<and>
   (\<not> success d6 \<longrightarrow>
      textContent (searchAndAnalyzeAwaited (Reply d6) st) ''searchError'' = error d6 \<and>
      activeClass (searchAndAnalyzeAwaited (Reply d6) st) ''searchError'' \<and>
      innerHTML (searchAndAnalyzeAwaited (Reply d6) st) = innerHTML st \<and>
      activeClass (searchAndAnalyzeAwaited (Reply d6) st) ''searchResults'' =
        activeClass st ''searchResults'') \<and>
   (\<not> success d7 \<longrightarrow>
      textContent (testSentimentAwaited (Reply d7) st) = textContent st \<and>
      activeClass (testSentimentAwaited (Reply d7) st) = activeClass st \<and>
      innerHTML (testSentimentAwaited (Reply d7) st) = innerHTML st)"
  by (simp add: getUserProfileAwaited_def getUserTweetsAwaited_def analyzeRepliesAwaited_def
        compareUsersAwaited_def compareTweetsAwaited_def searchAndAnalyzeAwaited_def
        testSentimentAwaited_def helper_defs Let_def)

text \<open>
  The failure reply arrives on a page that shows an earlier profile: the error region
  displays \<open>X\<close>, and the earlier result stays as it is, markup and visibility.
\<close>

theorem failure_reply_shown_witness:
  "\<not> success (exampleFailure exampleInfo) \<and>
   error (exampleFailure exampleInfo) = ''X'' \<and>
   textContent (getUserProfileAwaited (Reply (exampleFailure exampleInfo)) shownPage)
     ''profileError'' = ''X'' \<and>
   activeClass (getUserProfileAwaited (Reply (exampleFailure exampleInfo)) shownPage)
     ''profileError'' \<and>
   innerHTML (getUserProfileAwaited (Reply (exampleFailure exampleInfo)) shownPage) =
     innerHTML shownPage \<and>
   activeClass (getUserProfileAwaited (Reply (exampleFailure exampleInfo)) shownPage)
     ''profileResults''"
proof -
  have s: "\<not> success (exampleFailure exampleInfo)"
    "error (exampleFailure exampleInfo) = ''X''"
    by (simp_all add: exampleFailure_def)
  have a: "activeClass shownPage ''profileResults''"
    by (simp add: shownPage_def displayUserProfile_def helper_defs Let_def)
  from failure_reply_shown [of "exampleFailure exampleInfo" shownPage
      "exampleFailure undefined" undefined "exampleFailure undefined"
      "exampleFailure undefined" "exampleFailure undefined" "exampleFailure undefined"
      "exampleFailure exampleSentiment"]
  show ?thesis by (simp add: s a)
qed

text \<open>
  Claim C3 as stated fails for the sentiment test: on a reply with the success flag false
  and the error \<open>X\<close>, no element of the page has any text.
\<close>

theorem testSentiment_failure_shows_nothing:
  "fieldValue (examplePage\<lparr>fieldValue := (\<lambda>i. ''hello'')\<rparr>) ''testText'' = ''hello'' \<and>
   \<not> success (exampleFailure exampleSentiment) \<and>
   error (exampleFailure exampleSentiment) = ''X'' \<and>
   textContent (testSentiment (Reply (exampleFailure exampleSentiment))
     (examplePage\<lparr>fieldValue := (\<lambda>i. ''hello'')\<rparr>)) = (\<lambda>e. [])"
  by (simp add: testSentiment_def testSentimentAwaited_def fetch_def exampleFailure_def
        examplePage_def Let_def)


lemma requests_createChart [simp]: "requests (fst (createChart c t d st)) = requests st"
  by (simp add: createChart_def Let_def split: option.splits)

lemma requests_createChartIf [simp]: "requests (fst (createChartIf c t d st)) = requests st"
  by (simp add: createChartIf_def split: option.splits)

lemma requests_andThen:
  "(\<And>s. requests (fst (f s)) = requests s) \<Longrightarrow> requests (fst (andThen p f)) = requests (fst p)"
  by (cases p; cases "snd p") auto

lemma requests_rendered [simp]: "requests (rendered l e p) = requests (fst p)"
  by (cases p; cases "snd p") (auto simp: helper_defs)

lemma requests_displayUserComparison [simp]:
  "requests (fst (displayUserComparison d st)) = requests st"
  by (simp add: displayUserComparison_def Let_def requests_andThen helper_defs)

lemma numberOfInt_50: "numberOfInt 50 = Fin 25 1"
  by (simp add: numberOfInt_def roundDouble_def roundMagnitude_def floorLog2_def
        roundHalfEven_def bitlen.simps canon.simps Let_def split del: if_split)

text \<open>
  Claim C8. Whatever the inputs and the outcome, the comparison of two users issues no
  request when a user name is empty, and otherwise exactly one request, whose
  \<open>max_tweets\<close> is the number 50 (as a double, \<open>25 * 2 ^ 1\<close>).
\<close>

theorem compareUsers_depth_fixed:
  "requests (compareUsers out st) =
     (if fieldValue st ''compareUser1'' = [] \<or> fieldValue st ''compareUser2'' = []
      then requests st
      else requests st @
        [\<lparr>endpoint = ''/api/compare-users'',
          body = [(''username1'', JStr (fieldValue st ''compareUser1'')),
                  (''username2'', JStr (fieldValue st ''compareUser2'')),
                  (''max_tweets'', JNum (numberOfInt 50))]\<rparr>]) \<and>
   numberOfInt 50 = Fin 25 1"
proof -
  have "requests (compareUsersAwaited out s) = requests s" for s
    by (cases out) (simp_all add: compareUsersAwaited_def Let_def helper_defs)
  then show ?thesis
    by (simp add: compareUsers_def Let_def helper_defs numberOfInt_50)
qed

section \<open>Blank input\<close>

lemma issued_fetch_prepare:
  "issued st errorId e b (fetch e b (prepare loadingId errorId resultsId st))"
  by (simp add: issued_def helper_defs)

text \<open>
  Claim C10, amended. The validation of a flow tests its required inputs for the empty
  string only. A required input whose value is blank passes that test: when the other
  required input of the flow, if it has one, is not empty either, the flow goes on to its
  awaited part from the state in which the request carrying the blank value as it is has
  been issued and the error region is not shown. The sentiment test, which has no error
  region, issues its request and changes no text and no visibility before the outcome
  arrives.
\<close>

theorem blank_input_is_sent:
  "(blank v \<and> fieldValue st ''profileUsername'' = v \<longrightarrow>
      (let st' = fetch ''/api/user-info'' [(''username'', JStr v)]
                   (prepare ''profileLoading'' ''profileError'' ''profileResults'' st)
       in getUserProfile o1 st = getUserProfileAwaited o1 st' \<and>
          issued st ''profileError'' ''/api/user-info'' [(''username'', JStr v)] st')) \<and>
   (blank v \<and> fieldValue st ''tweetsUsername'' = v \<longrightarrow>
      (let b = [(''username'', JStr v), (''max_results'', JStr (fieldValue st ''tweetsMax''))];
           st' = fetch ''/api/user-tweets'' b
                   (prepare ''tweetsLoading'' ''tweetsError'' ''tweetsResults'' st)
       in getUserTweets o2 st = getUserTweetsAwaited v o2 st' \<and>
          issued st ''tweetsError'' ''/api/user-tweets'' b st')) \<and>
   (blank v \<and> fieldValue st ''replyTweetId'' = v \<longrightarrow>
      (let st' = fetch ''/api/tweet-replies'' [(''tweet_id'', JStr v)]
                   (prepare ''replyLoading'' ''replyError'' ''replyResults'' st)
       in analyzeReplies o3 st = analyzeRepliesAwaited o3 st' \<and>
          issued st ''replyError'' ''/api/tweet-replies'' [(''tweet_id'', JStr v)] st')) \<and>
   (blank v \<and> w \<noteq> [] \<and> fieldValue st ''compareUser1'' = v \<and>
    fieldValue st ''compareUser2'' = w \<longrightarrow>
      (let b = [(''username1'', JStr v), (''username2'', JStr w),
                (''max_tweets'', JNum (numberOfInt 50))];
           st' = fetch ''/api/compare-users'' b
                   (prepare ''compareUsersLoading'' ''compareUsersError''
                      ''compareUsersResults'' st)
       in compareUsers o4 st = compareUsersAwaited o4 st' \<and>
          issued st ''compareUsersError'' ''/api/compare-users'' b st')) \<and>
   (blank v \<and> w \<noteq> [] \<and> fieldValue st ''compareUser1'' = w \<and>
    fieldValue st ''compareUser2'' = v \<longrightarrow>
      (let b = [(''username1'', JStr w), (''username2'', JStr v),
                (''max_tweets'', JNum (numberOfInt 50))];
           st' = fetch ''/api/compare-users'' b
                   (prepare ''compareUsersLoading'' ''compareUsersError''
                      ''compareUsersResults'' st)
       in compareUsers o4 st = compareUsersAwaited o4 st' \<and>
          issued st ''compareUsersError'' ''/api/compare-users'' b st')) \<and>
   (blank v \<and> w \<noteq> [] \<and> fieldValue st ''compareTweet1'' = v \<and>
    fieldValue st ''compareTweet2'' = w \<longrightarrow>
      (let b = [(''tweet_id1'', JStr v), (''tweet_id2'', JStr (extractTweetId w))];
           st' = fetch ''/api/compare-tweets'' b
                   (prepare ''compareTweetsLoading'' ''compareTweetsError''
                      ''compareTweetsResults'' st)
       in compareTweets o5 st = compareTweetsAwaited o5 st' \<and>
          issued st ''compareTweetsError'' ''/api/compare-tweets'' b st')) \<and>
   (blank v \<and> w \<noteq> [] \<and> fieldValue st ''compareTweet1'' = w \<and>
    fieldValue st ''compareTweet2'' = v \<longrightarrow>
      (let b = [(''tweet_id1'', JStr (extractTweetId w)), (''tweet_id2'', JStr v)];
           st' = fetch ''/api/compare-tweets'' b
                   (prepare ''compareTweetsLoading'' ''compareTweetsError''
                      ''compareTweetsResults'' st)
       in compareTweets o5 st = compareTweetsAwaited o5 st' \<and>
          issued st ''compareTweetsError'' ''/api/compare-tweets'' b st')) \<and>
   (blank v \<and> fieldValue st ''searchQuery'' = v \<longrightarrow>
      (let b = [(''query'', JStr v), (''max_results'', JStr (fieldValue st ''searchMax''))];
           st' = fetch ''/api/search-analyze'' b
                   (prepare ''searchLoading'' ''searchError'' ''searchResults'' st)
       in searchAndAnalyze o6 st = searchAndAnalyzeAwaited o6 st' \<and>
          issued st ''searchError'' ''/api/search-analyze'' b st')) \<and>
   (blank v \<and> fieldValue st ''testText'' = v \<longrightarrow>
      (let st' = fetch ''/api/test-sentiment'' [(''text'', JStr v)] st
       in testSentiment o7 st = testSentimentAwaited o7 st' \<and>
          requests st' = requests st @
            [\<lparr>endpoint = ''/api/test-sentiment'', body = [(''text'', JStr v)]\<rparr>] \<and>
          textContent st' = textContent st \<and> activeClass st' = activeClass st))"
proof -
  have ne: "blank u \<Longrightarrow> u \<noteq> []" for u
    by (simp add: blank_def)
  have f: "requests (fetch e b s) = requests s @ [\<lparr>endpoint = e, body = b\<rparr>]"
    "textContent (fetch e b s) = textContent s" "activeClass (fetch e b s) = activeClass s"
    for e b s
    by (simp_all add: fetch_def)
  show ?thesis
    by (auto simp: getUserProfile_def getUserTweets_def analyzeReplies_def compareUsers_def
        compareTweets_def searchAndAnalyze_def testSentiment_def Let_def
        extractTweetId_blank extractTweetId_Nil_iff issued_fetch_prepare f dest: ne)
qed

text \<open>
  A single space beside the user name \<open>bob\<close>: the request goes out with both values as
  they are, and the failed request that follows is the only error shown.
\<close>

theorem blank_input_is_sent_witness:
  "blank '' '' \<and>
   fieldValue spaceAndBobPage ''compareUser1'' = '' '' \<and>
   fieldValue spaceAndBobPage ''compareUser2'' = ''bob'' \<and>
   requests (compareUsers (Failed []) spaceAndBobPage) =
     [\<lparr>endpoint = ''/api/compare-users'',
       body = [(''username1'', JStr '' ''), (''username2'', JStr ''bob''),
               (''max_tweets'', JNum (numberOfInt 50))]\<rparr>] \<and>
   textContent (compareUsers (Failed []) spaceAndBobPage) ''compareUsersError'' = ''Error: ''"
proof -
  have b: "blank '' ''"
    by (simp add: blank_def isSpace_def)
  have f: "fieldValue spaceAndBobPage ''compareUser1'' = '' ''"
    "fieldValue spaceAndBobPage ''compareUser2'' = ''bob''"
    by (simp_all add: spaceAndBobPage_def)
  from blank_input_is_sent [of "'' ''" spaceAndBobPage "Failed []" "Failed []" "Failed []"
      "''bob''" "Failed []" "Failed []" "Failed []" "Failed []"]
  have "compareUsers (Failed []) spaceAndBobPage =
      compareUsersAwaited (Failed [])
        (fetch ''/api/compare-users''
           [(''username1'', JStr '' ''), (''username2'', JStr ''bob''),
            (''max_tweets'', JNum (numberOfInt 50))]
           (prepare ''compareUsersLoading'' ''compareUsersError'' ''compareUsersResults''
              spaceAndBobPage))"
    by (simp add: b f Let_def)
  then show ?thesis
    by (simp add: b f compareUsersAwaited_def helper_defs spaceAndBobPage_def examplePage_def)
qed

text \<open>
  Claim C10 as stated fails where a flow has two required inputs: with a single space as
  the first user name and the second user name empty, the comparison of users shows its
  validation message and issues no request.
\<close>

theorem blank_beside_empty_is_rejected:
  "blank '' '' \<and>
   fieldValue spaceAndEmptyPage ''compareUser1'' = '' '' \<and>
   requests (compareUsers (Failed []) spaceAndEmptyPage) = [] \<and>
   activeClass (compareUsers (Failed []) spaceAndEmptyPage) ''compareUsersError'' \<and>
   textContent (compareUsers (Failed []) spaceAndEmptyPage) ''compareUsersError'' =
     ''Please enter both usernames''"
  by (simp add: blank_def isSpace_def spaceAndEmptyPage_def examplePage_def compareUsers_def
        showError_def addActive_def Let_def)


section \<open>Confidence as text\<close>













section \<open>The chart registry\<close>

lemma length_destroyAt [simp]: "length (destroyAt r cs) = length cs"
  by (induction r cs rule: destroyAt.induct) simp_all

lemma nth_destroyAt:
  "i < length cs \<Longrightarrow>
   destroyAt r cs ! i = (if i = r then (cs ! i)\<lparr>destroyed := True\<rparr> else cs ! i)"
proof (induction r cs arbitrary: i rule: destroyAt.induct)
  case (1 r)
  then show ?case by simp
next
  case (2 c cs)
  then show ?case by (cases i) simp_all
next
  case (3 r c cs)
  then show ?case by (cases i) simp_all
qed

lemma filter_at_most_one:
  "(\<And>i j. i < length xs \<Longrightarrow> j < length xs \<Longrightarrow> P (xs ! i) \<Longrightarrow> P (xs ! j) \<Longrightarrow> i = j) \<Longrightarrow>
   length (filter P xs) \<le> 1"
proof (induction xs)
  case Nil
  then show ?case by simp
next
  case (Cons x xs)
  have step: "i < length xs \<Longrightarrow> j < length xs \<Longrightarrow> P (xs ! i) \<Longrightarrow> P (xs ! j) \<Longrightarrow> i = j" for i j
    using Cons.prems [of "Suc i" "Suc j"] by simp
  show ?case
  proof (cases "P x")
    case True
    have "\<not> P y" if "y \<in> set xs" for y
    proof
      assume "P y"
      from that obtain j where "j < length xs" "xs ! j = y"
        by (auto simp: in_set_conv_nth)
      with True \<open>P y\<close> Cons.prems [of 0 "Suc j"] show False by simp
    qed
    then have "filter P xs = []" by (simp add: filter_empty_conv)
    with True show ?thesis by simp
  next
    case False
    with Cons.IH step show ?thesis by simp
  qed
qed

lemma registeredI:
  assumes "\<And>r. r < length (charts st) \<Longrightarrow> \<not> destroyed (charts st ! r) \<Longrightarrow>
             chartInstances st (canvas (charts st ! r)) = Some r"
    and "\<And>c r. chartInstances st c = Some r \<Longrightarrow>
             r < length (charts st) \<and> canvas (charts st ! r) = c"
  shows "registered st"
  unfolding registered_def using assms by blast

lemma registered_account:
  "registered st \<Longrightarrow> r < length (charts st) \<Longrightarrow> \<not> destroyed (charts st ! r) \<Longrightarrow>
   chartInstances st (canvas (charts st ! r)) = Some r"
  unfolding registered_def by blast

lemma registered_valid:
  "registered st \<Longrightarrow> chartInstances st c = Some r \<Longrightarrow>
   r < length (charts st) \<and> canvas (charts st ! r) = c"
  unfolding registered_def by blast

lemma registered_live: "registered st \<Longrightarrow> length (liveCharts st c) \<le> 1"
  unfolding liveCharts_def
proof (rule filter_at_most_one)
  fix i j
  assume r: "registered st" and i: "i < length (charts st)" and j: "j < length (charts st)"
    and a: "canvas (charts st ! i) = c \<and> \<not> destroyed (charts st ! i)"
    and b: "canvas (charts st ! j) = c \<and> \<not> destroyed (charts st ! j)"
  from registered_account [OF r i] a have "chartInstances st c = Some i" by simp
  moreover from registered_account [OF r j] b have "chartInstances st c = Some j" by simp
  ultimately show "i = j" by simp
qed

lemma registered_destroy:
  assumes "registered st"
  shows "registered (st\<lparr>charts := destroyAt r (charts st)\<rparr>)"
proof (rule registeredI)
  fix i
  assume i: "i < length (charts (st\<lparr>charts := destroyAt r (charts st)\<rparr>))"
    and l: "\<not> destroyed (charts (st\<lparr>charts := destroyAt r (charts st)\<rparr>) ! i)"
  from i have i': "i < length (charts st)" by simp
  from l i' have "i \<noteq> r" by (auto simp: nth_destroyAt)
  with i' have e: "destroyAt r (charts st) ! i = charts st ! i" by (simp add: nth_destroyAt)
  with l have "\<not> destroyed (charts st ! i)" by simp
  from registered_account [OF assms i' this] e
  show "chartInstances (st\<lparr>charts := destroyAt r (charts st)\<rparr>)
          (canvas (charts (st\<lparr>charts := destroyAt r (charts st)\<rparr>) ! i)) = Some i"
    by simp
next
  fix c q
  assume "chartInstances (st\<lparr>charts := destroyAt r (charts st)\<rparr>) c = Some q"
  then have "chartInstances st c = Some q" by simp
  from registered_valid [OF assms this]
  show "q < length (charts (st\<lparr>charts := destroyAt r (charts st)\<rparr>)) \<and>
      canvas (charts (st\<lparr>charts := destroyAt r (charts st)\<rparr>) ! q) = c"
    by (auto simp: nth_destroyAt)
qed

lemma registered_append:
  assumes "registered st"
    and stale: "\<And>i. i < length (charts st) \<Longrightarrow> canvas (charts st ! i) = c \<Longrightarrow>
                  destroyed (charts st ! i)"
  shows "registered (st\<lparr>charts := charts st @ [\<lparr>canvas = c, kind = t, series = d, destroyed = False\<rparr>],
           chartInstances := (chartInstances st)(c \<mapsto> length (charts st))\<rparr>)"
    (is "registered ?st'")
proof (rule registeredI)
  fix i
  assume i: "i < length (charts ?st')" and l: "\<not> destroyed (charts ?st' ! i)"
  show "chartInstances ?st' (canvas (charts ?st' ! i)) = Some i"
  proof (cases "i < length (charts st)")
    case True
    with l have n: "\<not> destroyed (charts st ! i)" by (simp add: nth_append)
    with stale [OF True] have "canvas (charts st ! i) \<noteq> c" by blast
    with registered_account [OF assms(1) True n] True show ?thesis by (simp add: nth_append)
  next
    case False
    with i have "i = length (charts st)" by simp
    then show ?thesis by simp
  qed
next
  fix c' q
  assume a: "chartInstances ?st' c' = Some q"
  show "q < length (charts ?st') \<and> canvas (charts ?st' ! q) = c'"
  proof (cases "c' = c")
    case True
    with a have "q = length (charts st)" by simp
    with True show ?thesis by (simp add: nth_append)
  next
    case False
    with a have "chartInstances st c' = Some q" by simp
    from registered_valid [OF assms(1) this] show ?thesis by (simp add: nth_append)
  qed
qed

text \<open>The state of \<open>createChart\<close> after the old chart has been destroyed.\<close>

lemma createChart_stale:
  assumes "registered st"
    and "st1 = (case chartInstances st c of None \<Rightarrow> st
                | Some r \<Rightarrow> st\<lparr>charts := destroyAt r (charts st)\<rparr>)"
    and "i < length (charts st1)" and "canvas (charts st1 ! i) = c"
  shows "destroyed (charts st1 ! i)"
proof (cases "chartInstances st c")
  case None
  with assms have i: "i < length (charts st)" and c: "canvas (charts st ! i) = c"
    and e: "st1 = st" by simp_all
  have "destroyed (charts st ! i)"
  proof (rule ccontr)
    assume "\<not> destroyed (charts st ! i)"
    from registered_account [OF assms(1) i this] c None show False by simp
  qed
  with e show ?thesis by simp
next
  case (Some r)
  with assms have i: "i < length (charts st)" by simp
  show ?thesis
  proof (cases "i = r")
    case True
    with Some assms(2) i show ?thesis by (simp add: nth_destroyAt)
  next
    case False
    with Some assms(2,4) i have c: "canvas (charts st ! i) = c" and
      e: "charts st1 ! i = charts st ! i"
      by (simp_all add: nth_destroyAt)
    have "destroyed (charts st ! i)"
    proof (rule ccontr)
      assume "\<not> destroyed (charts st ! i)"
      from registered_account [OF assms(1) i this] c have "chartInstances st c = Some i"
        by simp
      with Some False show False by simp
    qed
    with e show ?thesis by simp
  qed
qed

lemma registered_createChart: "registered st \<Longrightarrow> registered (fst (createChart c t d st))"
proof -
  assume r: "registered st"
  define st1 where "st1 = (case chartInstances st c of None \<Rightarrow> st
                | Some r \<Rightarrow> st\<lparr>charts := destroyAt r (charts st)\<rparr>)"
  have r1: "registered st1"
    using r by (auto simp: st1_def registered_destroy split: option.splits)
  have stale: "\<And>i. i < length (charts st1) \<Longrightarrow> canvas (charts st1 ! i) = c \<Longrightarrow>
      destroyed (charts st1 ! i)"
    using createChart_stale [OF r st1_def] by blast
  have "fst (createChart c t d st) =
      (if canvasPresent st1 c
       then st1\<lparr>charts := charts st1 @ [\<lparr>canvas = c, kind = t, series = d, destroyed = False\<rparr>],
              chartInstances := (chartInstances st1)(c \<mapsto> length (charts st1))\<rparr>
       else st1)"
    by (simp add: createChart_def st1_def [symmetric] Let_def)
  with r1 registered_append [OF r1 stale] show ?thesis by simp
qed

lemma createChart_destroys:
  "registered st \<Longrightarrow> chartInstances st c = Some r \<Longrightarrow>
   destroyed (charts (fst (createChart c t d st)) ! r)"
proof -
  assume "registered st" and c: "chartInstances st c = Some r"
  then have "r < length (charts st)" by (simp add: registered_valid)
  with c show ?thesis by (simp add: createChart_def Let_def nth_destroyAt nth_append)
qed

lemma registered_keep:
  "registered st \<Longrightarrow> charts st' = charts st \<Longrightarrow> chartInstances st' = chartInstances st \<Longrightarrow>
   registered st'"
  by (simp add: registered_def)

lemma helpers_keep_charts [simp]:
  "charts (addActive i st) = charts st" "chartInstances (addActive i st) = chartInstances st"
  "charts (removeActive i st) = charts st" "chartInstances (removeActive i st) = chartInstances st"
  "charts (showLoading i st) = charts st" "chartInstances (showLoading i st) = chartInstances st"
  "charts (hideLoading i st) = charts st" "chartInstances (hideLoading i st) = chartInstances st"
  "charts (showError i m st) = charts st" "chartInstances (showError i m st) = chartInstances st"
  "charts (hideError i st) = charts st" "chartInstances (hideError i st) = chartInstances st"
  "charts (showResults i st) = charts st" "chartInstances (showResults i st) = chartInstances st"
  "charts (hideResults i st) = charts st" "chartInstances (hideResults i st) = chartInstances st"
  "charts (setInnerHTML i h st) = charts st" "chartInstances (setInnerHTML i h st) = chartInstances st"
  "charts (fetch e b st) = charts st" "chartInstances (fetch e b st) = chartInstances st"
  "charts (prepare l i r st) = charts st" "chartInstances (prepare l i r st) = chartInstances st"
  "charts (caught l i m st) = charts st" "chartInstances (caught l i m st) = chartInstances st"
  by (simp_all add: helper_defs)

lemma helpers_keep_markup [simp]:
  "innerHTML (addActive i st) = innerHTML st"
  "innerHTML (removeActive i st) = innerHTML st"
  "innerHTML (showLoading i st) = innerHTML st"
  "innerHTML (hideLoading i st) = innerHTML st"
  "innerHTML (showError i m st) = innerHTML st"
  "innerHTML (hideError i st) = innerHTML st"
  "innerHTML (showResults i st) = innerHTML st"
  "innerHTML (hideResults i st) = innerHTML st"
  "innerHTML (setInnerHTML i h st) = (innerHTML st)(i := h)"
  "innerHTML (fetch e b st) = innerHTML st"
  "innerHTML (prepare l i r st) = innerHTML st"
  "innerHTML (caught l i m st) = innerHTML st"
  by (simp_all add: helper_defs)

lemma fold_removeActive_keeps [simp]:
  "charts (fold removeActive xs st) = charts st"
  "chartInstances (fold removeActive xs st) = chartInstances st"
  "innerHTML (fold removeActive xs st) = innerHTML st"
  by (induction xs arbitrary: st) simp_all

lemma switchTab_keeps [simp]:
  "charts (switchTab e n st) = charts st"
  "chartInstances (switchTab e n st) = chartInstances st"
  "innerHTML (switchTab e n st) = innerHTML st"
  by (simp_all add: switchTab_def)

lemma createChart_markup [simp]: "innerHTML (fst (createChart c t d st)) = innerHTML st"
  by (simp add: createChart_def Let_def split: option.splits)

lemma createChartIf_markup [simp]: "innerHTML (fst (createChartIf c t d st)) = innerHTML st"
  by (simp add: createChartIf_def split: option.splits)

lemma registered_createChartIf:
  "registered st \<Longrightarrow> registered (fst (createChartIf c t d st))"
  by (simp add: createChartIf_def registered_createChart split: option.splits)

lemma andThen_cases:
  "andThen p f = (case snd p of None \<Rightarrow> f (fst p) | Some e \<Rightarrow> p)"
  by (cases p; cases "snd p") auto

lemma registered_andThen:
  "registered (fst p) \<Longrightarrow> (\<And>s. registered s \<Longrightarrow> registered (fst (f s))) \<Longrightarrow>
   registered (fst (andThen p f))"
  by (simp add: andThen_cases split: option.splits)

lemma rendered_cases:
  "rendered l i p = (case snd p of None \<Rightarrow> fst p | Some e \<Rightarrow> caught l i (message e) (fst p))"
  by (cases p; cases "snd p") auto

lemma registered_rendered: "registered (fst p) \<Longrightarrow> registered (rendered l i p)"
  by (auto simp: rendered_cases split: option.splits elim: registered_keep)

lemma markup_rendered [simp]: "innerHTML (rendered l i p) = innerHTML (fst p)"
  by (simp add: rendered_cases split: option.splits)

lemma registered_shown:
  "registered st \<Longrightarrow> registered (showResults i (setInnerHTML j h st))"
  by (erule registered_keep) simp_all

lemma registered_displayUserTweets:
  "registered st \<Longrightarrow> registered (fst (displayUserTweets d u st))"
  by (simp add: displayUserTweets_def Let_def registered_andThen registered_createChart
        registered_createChartIf registered_shown)

lemma registered_displayReplyAnalysis:
  "registered st \<Longrightarrow> registered (fst (displayReplyAnalysis d st))"
  by (simp add: displayReplyAnalysis_def Let_def registered_createChartIf registered_shown
        split: option.splits)

lemma registered_displayUserComparison:
  "registered st \<Longrightarrow> registered (fst (displayUserComparison d st))"
  by (simp add: displayUserComparison_def Let_def registered_andThen registered_createChart
        registered_shown)

lemma registered_displayTweetComparison:
  "registered st \<Longrightarrow> registered (fst (displayTweetComparison d st))"
  by (simp add: displayTweetComparison_def Let_def registered_createChart registered_shown)

lemma registered_displaySearchResults:
  "registered st \<Longrightarrow> registered (fst (displaySearchResults d st))"
  by (simp add: displaySearchResults_def Let_def registered_andThen registered_createChart
        registered_createChartIf registered_shown)

lemma registered_hideLoading: "registered st \<Longrightarrow> registered (hideLoading i st)"
  by (erule registered_keep) simp_all

lemma registered_awaited:
  assumes "registered st"
  shows "registered (getUserProfileAwaited o1 st)"
    and "registered (getUserTweetsAwaited u o2 st)"
    and "registered (analyzeRepliesAwaited o3 st)"
    and "registered (compareUsersAwaited o4 st)"
    and "registered (compareTweetsAwaited o5 st)"
    and "registered (searchAndAnalyzeAwaited o6 st)"
    and "registered (testSentimentAwaited o7 st)"
proof -
  have k: "registered (caught l i m st)" "registered (showError i m (hideLoading l st))" for l i m
    by (rule registered_keep [OF assms]; simp)+
  have h: "registered (hideLoading l st)" for l
    using assms by (rule registered_hideLoading)
  have p: "registered (displayUserProfile d (hideLoading l st))" for d l
    by (rule registered_keep [OF assms]) (simp_all add: displayUserProfile_def Let_def)
  show "registered (getUserProfileAwaited o1 st)"
    by (cases o1) (simp_all add: getUserProfileAwaited_def Let_def k p)
  show "registered (getUserTweetsAwaited u o2 st)"
    by (cases o2) (simp_all add: getUserTweetsAwaited_def Let_def k registered_rendered
        registered_displayUserTweets [OF h])
  show "registered (analyzeRepliesAwaited o3 st)"
    by (cases o3) (simp_all add: analyzeRepliesAwaited_def Let_def k registered_rendered
        registered_displayReplyAnalysis [OF h])
  show "registered (compareUsersAwaited o4 st)"
    by (cases o4) (simp_all add: compareUsersAwaited_def Let_def k registered_rendered
        registered_displayUserComparison [OF h])
  show "registered (compareTweetsAwaited o5 st)"
    by (cases o5) (simp_all add: compareTweetsAwaited_def Let_def k registered_rendered
        registered_displayTweetComparison [OF h])
  show "registered (searchAndAnalyzeAwaited o6 st)"
    by (cases o6) (simp_all add: searchAndAnalyzeAwaited_def Let_def k registered_rendered
        registered_displaySearchResults [OF h])
  have t: "registered (st\<lparr>console := c\<rparr>)" "registered (showResults i (setInnerHTML j h st))"
    for c i j h
    by (rule registered_keep [OF assms]; simp)+
  show "registered (testSentimentAwaited o7 st)"
    by (cases o7) (simp_all add: testSentimentAwaited_def t assms)
qed

lemma reachable_registered: "reachable st \<Longrightarrow> registered st"
proof (induction rule: reachable.induct)
  case (onLoad st)
  then show ?case by (simp add: loaded_def registered_def)
next
  case (edit st f)
  then show ?case by (elim registered_keep) simp_all
next
  case (invalid st errorId msg)
  then show ?case by (elim registered_keep) simp_all
next
  case (request st e b loadingId errorId resultsId)
  then show ?case by (elim registered_keep) simp_all
next
  case (requestTest st e b)
  then show ?case by (elim registered_keep) simp_all
next
  case (tab st eventTarget tabName)
  then show ?case by (elim registered_keep) simp_all
qed (simp_all add: registered_awaited)

text \<open>The flows are compositions of the steps of a running page.\<close>

lemma reachable_flows:
  assumes "reachable st"
  shows "reachable (getUserProfile o1 st)"
    and "reachable (getUserTweets o2 st)"
    and "reachable (analyzeReplies o3 st)"
    and "reachable (compareUsers o4 st)"
    and "reachable (compareTweets o5 st)"
    and "reachable (searchAndAnalyze o6 st)"
    and "reachable (testSentiment o7 st)"
  using assms
  by (simp_all add: getUserProfile_def getUserTweets_def analyzeReplies_def compareUsers_def
      compareTweets_def searchAndAnalyze_def testSentiment_def Let_def reachable.intros)

lemma reachable_analyzeSpecificTweet:
  "reachable st \<Longrightarrow> reachable (analyzeSpecificTweet e i o3 st)"
  by (simp add: analyzeSpecificTweet_def reachable_flows reachable.intros)

section \<open>One live chart for a canvas\<close>

lemma loaded_examplePage: "loaded examplePage"
  by (simp add: loaded_def examplePage_def)

lemma reachable_filledPage: "reachable filledPage"
  unfolding filledPage_def by (intro reachable.edit reachable.onLoad loaded_examplePage)

lemma reachable_comparedPage: "reachable comparedPage"
  unfolding comparedPage_def by (intro reachable_flows reachable_filledPage)

lemma extractTweetId_1: "extractTweetId ''1'' = ''1''"
  by (simp add: extractTweetId_def matchHere_def)

lemma canvasPresent_markup:
  "innerHTML st' = innerHTML st \<Longrightarrow> parseCanvases st' = parseCanvases st \<Longrightarrow>
   canvasPresent st' c = canvasPresent st c"
  by (simp add: canvasPresent_def)

lemma createChart_parser [simp]:
  "parseCanvases (fst (createChart c t d st)) = parseCanvases st"
  "innerHTML (fst (createChart c t d st)) = innerHTML st"
  by (simp_all add: createChart_def Let_def split: option.splits)

lemma createChart_present:
  assumes r: "registered st" and p: "canvasPresent st c"
  shows "snd (createChart c t d st) = None"
    and "chartInstances (fst (createChart c t d st)) c = Some (length (charts st))"
    and "charts (fst (createChart c t d st)) ! length (charts st) =
           \<lparr>canvas = c, kind = t, series = d, destroyed = False\<rparr>"
    and "liveCharts (fst (createChart c t d st)) c =
           [\<lparr>canvas = c, kind = t, series = d, destroyed = False\<rparr>]"
    and "canvasPresent (fst (createChart c t d st)) c"
proof -
  define st1 where "st1 = (case chartInstances st c of None \<Rightarrow> st
                | Some r \<Rightarrow> st\<lparr>charts := destroyAt r (charts st)\<rparr>)"
  have l: "length (charts st1) = length (charts st)"
    by (simp add: st1_def split: option.splits)
  have "canvasPresent st1 c = canvasPresent st c"
    by (rule canvasPresent_markup) (simp_all add: st1_def split: option.splits)
  with p have p1: "canvasPresent st1 c" by simp
  have e: "createChart c t d st =
      (st1\<lparr>charts := charts st1 @ [\<lparr>canvas = c, kind = t, series = d, destroyed = False\<rparr>],
           chartInstances := (chartInstances st1)(c \<mapsto> length (charts st1))\<rparr>, None)"
    using p1 by (simp add: createChart_def st1_def [symmetric] Let_def)
  have stale: "x \<in> set (charts st1) \<Longrightarrow> canvas x = c \<Longrightarrow> destroyed x" for x
    using createChart_stale [OF r st1_def] by (auto simp: in_set_conv_nth)
  then have f: "filter (\<lambda>ch. canvas ch = c \<and> \<not> destroyed ch) (charts st1) = []"
    by (auto simp: filter_empty_conv)
  show "snd (createChart c t d st) = None"
    by (simp add: e)
  show "chartInstances (fst (createChart c t d st)) c = Some (length (charts st))"
    by (simp add: e l)
  show "charts (fst (createChart c t d st)) ! length (charts st) =
      \<lparr>canvas = c, kind = t, series = d, destroyed = False\<rparr>"
    by (simp add: e l [symmetric])
  show "liveCharts (fst (createChart c t d st)) c =
      [\<lparr>canvas = c, kind = t, series = d, destroyed = False\<rparr>]"
    by (simp add: e liveCharts_def f)
  from p show "canvasPresent (fst (createChart c t d st)) c"
    by (simp add: canvasPresent_markup [of "fst (createChart c t d st)" st])
qed

lemma numberOfInt_0: "numberOfInt 0 = Fin 0 0"
  by (simp add: numberOfInt_def roundDouble_def roundMagnitude_def)

lemma comparedPage_charts:
  "charts comparedPage =
     [\<lparr>canvas = ''tweetCompareChart'', kind = ''bar'', series = JObj [], destroyed = False\<rparr>]"
  "chartInstances comparedPage ''tweetCompareChart'' = Some 0"
  "canvasPresent comparedPage ''tweetCompareChart''"
  by (simp_all add: comparedPage_def filledPage_def examplePage_def compareTweets_def
      compareTweetsAwaited_def displayTweetComparison_def createChart_def canvasPresent_def
      resultRegions_def exampleComparison_def extractTweetId_1 helper_defs Let_def
      el_def canvasEl_def comparedTweetCard_def percent_def conj_disj_distribR ex_disj_distrib)

text \<open>
  Claim C4. In every state that a page goes through, a canvas identifier has at most one
  chart object that is not destroyed. \<open>createChart\<close> keeps the registry in account of
  the live charts; the chart registered for the canvas when it is called is destroyed in
  the state it leaves; and two calls in succession for one canvas leave at most one live
  chart for it. When the page holds the canvas, \<open>createChart\<close> throws nothing, the
  registry maps the canvas to the chart just constructed, and that chart is the one live
  chart of the canvas: after one call, and after a second call for the same canvas, whose
  chart has then replaced the first.
\<close>

theorem one_live_chart_per_canvas:
  "(reachable st \<longrightarrow> length (liveCharts st c) \<le> 1) \<and>
   (registered st \<longrightarrow> registered (fst (createChart c t d st))) \<and>
   (registered st \<and> chartInstances st c = Some r \<longrightarrow>
      destroyed (charts (fst (createChart c t d st)) ! r)) \<and>
   (registered st \<longrightarrow>
      length (liveCharts (fst (createChart c t' d' (fst (createChart c t d st)))) c) \<le> 1) \<and>
   (registered st \<and> canvasPresent st c \<longrightarrow>
      snd (createChart c t d st) = None \<and>
      chartInstances (fst (createChart c t d st)) c = Some (length (charts st)) \<and>
      charts (fst (createChart c t d st)) ! length (charts st) =
        \<lparr>canvas = c, kind = t, series = d, destroyed = False\<rparr> \<and>
      liveCharts (fst (createChart c t d st)) c =
        [\<lparr>canvas = c, kind = t, series = d, destroyed = False\<rparr>] \<and>
      snd (createChart c t' d' (fst (createChart c t d st))) = None \<and>
      liveCharts (fst (createChart c t' d' (fst (createChart c t d st)))) c =
        [\<lparr>canvas = c, kind = t', series = d', destroyed = False\<rparr>])"
proof (intro conjI impI)
  assume "reachable st"
  then show "length (liveCharts st c) \<le> 1"
    by (intro registered_live reachable_registered)
next
  assume "registered st"
  then show "registered (fst (createChart c t d st))"
    by (rule registered_createChart)
next
  assume "registered st \<and> chartInstances st c = Some r"
  then show "destroyed (charts (fst (createChart c t d st)) ! r)"
    by (simp add: createChart_destroys)
next
  assume "registered st"
  then show "length (liveCharts (fst (createChart c t' d' (fst (createChart c t d st)))) c) \<le> 1"
    by (intro registered_live registered_createChart)
next
  assume a: "registered st \<and> canvasPresent st c"
  then show "snd (createChart c t d st) = None"
    by (simp add: createChart_present)
  from a show "chartInstances (fst (createChart c t d st)) c = Some (length (charts st))"
    by (simp add: createChart_present)
  from a show "charts (fst (createChart c t d st)) ! length (charts st) =
      \<lparr>canvas = c, kind = t, series = d, destroyed = False\<rparr>"
    by (simp add: createChart_present)
  from a show "liveCharts (fst (createChart c t d st)) c =
      [\<lparr>canvas = c, kind = t, series = d, destroyed = False\<rparr>]"
    by (simp add: createChart_present)
  from a have r': "registered (fst (createChart c t d st))"
    and p': "canvasPresent (fst (createChart c t d st)) c"
    by (simp_all add: registered_createChart createChart_present)
  from r' p' show "snd (createChart c t' d' (fst (createChart c t d st))) = None"
    by (rule createChart_present)
  from r' p' show "liveCharts (fst (createChart c t' d' (fst (createChart c t d st)))) c =
      [\<lparr>canvas = c, kind = t', series = d', destroyed = False\<rparr>]"
    by (rule createChart_present)
qed

text \<open>
  After one comparison of tweets the canvas \<open>tweetCompareChart\<close> has one live chart,
  the first chart object. A further call of \<open>createChart\<close> destroys it, and after two
  calls the one live chart of the canvas is the chart of the second call.
\<close>

theorem one_live_chart_per_canvas_witness:
  "reachable comparedPage \<and>
   registered comparedPage \<and>
   canvasPresent comparedPage ''tweetCompareChart'' \<and>
   chartInstances comparedPage ''tweetCompareChart'' = Some 0 \<and>
   \<not> destroyed (charts comparedPage ! 0) \<and>
   length (liveCharts comparedPage ''tweetCompareChart'') = 1 \<and>
   destroyed (charts (fst (createChart ''tweetCompareChart'' ''bar'' JNull comparedPage)) ! 0) \<and>
   snd (createChart ''tweetCompareChart'' ''bar'' JNull comparedPage) = None \<and>
   chartInstances (fst (createChart ''tweetCompareChart'' ''bar'' JNull comparedPage))
     ''tweetCompareChart'' = Some 1 \<and>
   liveCharts (fst (createChart ''tweetCompareChart'' ''bar'' JNull comparedPage))
     ''tweetCompareChart'' =
     [\<lparr>canvas = ''tweetCompareChart'', kind = ''bar'', series = JNull, destroyed = False\<rparr>] \<and>
   liveCharts
     (fst (createChart ''tweetCompareChart'' ''pie'' JNull
        (fst (createChart ''tweetCompareChart'' ''bar'' JNull comparedPage))))
     ''tweetCompareChart'' =
     [\<lparr>canvas = ''tweetCompareChart'', kind = ''pie'', series = JNull, destroyed = False\<rparr>] \<and>
   length (liveCharts
     (fst (createChart ''tweetCompareChart'' ''pie'' JNull
        (fst (createChart ''tweetCompareChart'' ''bar'' JNull comparedPage))))
     ''tweetCompareChart'') = 1"
proof -
  have r: "registered comparedPage"
    by (rule reachable_registered [OF reachable_comparedPage])
  have l: "length (liveCharts comparedPage ''tweetCompareChart'') = 1"
    by (simp add: liveCharts_def comparedPage_charts)
  from one_live_chart_per_canvas [of comparedPage "''tweetCompareChart''" "''bar''" JNull 0
      "''pie''" JNull]
  show ?thesis
    by (simp add: reachable_comparedPage r l comparedPage_charts)
qed

section \<open>A reply analysis without replies\<close>

lemma createChart_absent:
  assumes "\<not> canvasPresent st c"
  shows "length (charts (fst (createChart c t d st))) = length (charts st)"
    and "chartInstances (fst (createChart c t d st)) = chartInstances st"
    and "snd (createChart c t d st) = Some (TypeError (nullMessage st))"
proof -
  have "canvasPresent (st\<lparr>charts := x\<rparr>) c = canvasPresent st c" for x
    by (rule canvasPresent_markup) simp_all
  with assms show "length (charts (fst (createChart c t d st))) = length (charts st)"
    and "chartInstances (fst (createChart c t d st)) = chartInstances st"
    and "snd (createChart c t d st) = Some (TypeError (nullMessage st))"
    by (simp_all add: createChart_def Let_def split: option.splits)
qed

lemma createChart_constructs:
  assumes "canvasPresent st c"
  shows "length (charts (fst (createChart c t d st))) = Suc (length (charts st))"
    and "last (charts (fst (createChart c t d st))) =
           \<lparr>canvas = c, kind = t, series = d, destroyed = False\<rparr>"
    and "snd (createChart c t d st) = None"
proof -
  have "canvasPresent (st\<lparr>charts := x\<rparr>) c = canvasPresent st c" for x
    by (rule canvasPresent_markup) simp_all
  with assms show "length (charts (fst (createChart c t d st))) = Suc (length (charts st))"
    and "last (charts (fst (createChart c t d st))) =
           \<lparr>canvas = c, kind = t, series = d, destroyed = False\<rparr>"
    and "snd (createChart c t d st) = None"
    by (simp_all add: createChart_def Let_def split: option.splits)
qed

lemma displayReplyAnalysis_series:
  "displayReplyAnalysis data st =
     (let st1 = showResults ''replyResults''
                  (setInnerHTML ''replyResults''
                     (replyHeader data @
                        (if positive (ra_total_replies (tr_reply_analysis data))
                         then replyStatistics (tr_reply_analysis data)
                         else [noRepliesMessage])) st)
      in case chartSeries data of
           None \<Rightarrow> (st1, None)
         | Some j \<Rightarrow> createChart ''replyChart'' ''pie'' j st1)"
  by (simp add: displayReplyAnalysis_def chartSeries_def createChartIf_def Let_def
        split: option.splits)

lemma numToString_0: "numToString (Fin 0 0) = ''0''"
  by simp

text \<open>
  Claim C6, amended. For a reply analysis with \<open>total_replies = 0\<close>,
  \<open>displayReplyAnalysis\<close> sets the markup of the result region to the header followed by
  the paragraph \<open>No replies found for this tweet.\<close>, where the statistics, the canvas
  and the sample replies would be, and shows the region. The chart does not depend on the
  number of replies: \<open>createChart\<close> is called whenever the reply carries a series. No
  chart object is constructed and the registry is left as it was when the reply carries
  no series, and also when the page, with the new markup in its result region, holds no
  canvas \<open>replyChart\<close>; in the latter case a series makes \<open>createChart\<close> throw the
  \<open>TypeError\<close> of the missing canvas. When the reply carries a series and the page
  holds a canvas \<open>replyChart\<close>, one chart object is constructed for it, a pie chart of
  the series.
\<close>

theorem no_replies_message_rendered:
  "ra_total_replies (tr_reply_analysis data) = numberOfInt 0 \<longrightarrow>
     innerHTML (fst (displayReplyAnalysis data st)) ''replyResults'' =
       [Elem ''div'' [(''class'', [Lit ''chart-container''])]
          [Elem ''h3'' [] [Text [Lit ''Original Tweet'']],
           Elem ''p'' [] [Text [Val (o_text (tr_tweet data))]],
           Elem ''div'' []
             [Text (engagement (o_likes (tr_tweet data)) (o_retweets (tr_tweet data))
                      (o_replies (tr_tweet data)))]],
        Elem ''h3'' [] [Text [Lit ''Reply Analysis ('', Val ''0'', Lit '' replies)'']],
        Elem ''p'' [] [Text [Lit ''No replies found for this tweet.'']]] \<and>
     activeClass (fst (displayReplyAnalysis data st)) ''replyResults'' \<and>
     (chartSeries data = None \<longrightarrow>
        snd (displayReplyAnalysis data st) = None \<and>
        charts (fst (displayReplyAnalysis data st)) = charts st \<and>
        chartInstances (fst (displayReplyAnalysis data st)) = chartInstances st) \<and>
     (\<not> canvasPresent (fst (displayReplyAnalysis data st)) ''replyChart'' \<longrightarrow>
        length (charts (fst (displayReplyAnalysis data st))) = length (charts st) \<and>
        chartInstances (fst (displayReplyAnalysis data st)) = chartInstances st) \<and>
     (chartSeries data = Some j \<and>
      \<not> canvasPresent (fst (displayReplyAnalysis data st)) ''replyChart'' \<longrightarrow>
        snd (displayReplyAnalysis data st) = Some (TypeError (nullMessage st))) \<and>
     (chartSeries data = Some j \<and>
      canvasPresent (fst (displayReplyAnalysis data st)) ''replyChart'' \<longrightarrow>
        snd (displayReplyAnalysis data st) = None \<and>
        length (charts (fst (displayReplyAnalysis data st))) = Suc (length (charts st)) \<and>
        last (charts (fst (displayReplyAnalysis data st))) =
          \<lparr>canvas = ''replyChart'', kind = ''pie'', series = j, destroyed = False\<rparr>)"
proof
  assume z: "ra_total_replies (tr_reply_analysis data) = numberOfInt 0"
  define st1 where "st1 = showResults ''replyResults''
      (setInnerHTML ''replyResults'' (replyHeader data @ [noRepliesMessage]) st)"
  let ?r = "displayReplyAnalysis data st"
  have e: "?r = (case chartSeries data of None \<Rightarrow> (st1, None)
                 | Some j \<Rightarrow> createChart ''replyChart'' ''pie'' j st1)"
    unfolding st1_def by (simp add: displayReplyAnalysis_series z numberOfInt_0 Let_def)
  have k: "activeClass (fst (createChart c t x s)) = activeClass s" for c t x s
    by (simp add: createChart_def Let_def split: option.splits)
  have s1: "innerHTML st1 ''replyResults'' = replyHeader data @ [noRepliesMessage]"
    "activeClass st1 ''replyResults''" "charts st1 = charts st"
    "chartInstances st1 = chartInstances st" "nullMessage st1 = nullMessage st"
    by (simp_all add: st1_def helper_defs)
  have h: "replyHeader data @ [noRepliesMessage] =
       [Elem ''div'' [(''class'', [Lit ''chart-container''])]
          [Elem ''h3'' [] [Text [Lit ''Original Tweet'']],
           Elem ''p'' [] [Text [Val (o_text (tr_tweet data))]],
           Elem ''div'' []
             [Text (engagement (o_likes (tr_tweet data)) (o_retweets (tr_tweet data))
                      (o_replies (tr_tweet data)))]],
        Elem ''h3'' [] [Text [Lit ''Reply Analysis ('', Val ''0'', Lit '' replies)'']],
        Elem ''p'' [] [Text [Lit ''No replies found for this tweet.'']]]"
    by (simp add: replyHeader_def noRepliesMessage_def el_def z numberOfInt_0)
  have m: "innerHTML (fst ?r) = innerHTML st1" "parseCanvases (fst ?r) = parseCanvases st1"
    by (simp_all add: e split: option.splits)
  have p: "canvasPresent (fst ?r) ''replyChart'' = canvasPresent st1 ''replyChart''"
    by (rule canvasPresent_markup) (fact m)+
  have c1: "innerHTML (fst ?r) ''replyResults'' = replyHeader data @ [noRepliesMessage]"
    by (simp add: m s1)
  have c2: "activeClass (fst ?r) ''replyResults''"
    by (simp add: e s1 k split: option.splits)
  have c3: "snd ?r = None \<and> charts (fst ?r) = charts st \<and>
      chartInstances (fst ?r) = chartInstances st" if "chartSeries data = None"
    using that by (simp add: e s1)
  have c4: "length (charts (fst ?r)) = length (charts st) \<and>
      chartInstances (fst ?r) = chartInstances st"
    if "\<not> canvasPresent (fst ?r) ''replyChart''"
  proof -
    from that p have a: "\<not> canvasPresent st1 ''replyChart''" by simp
    show ?thesis
      by (simp add: e s1 createChart_absent [OF a] split: option.splits)
  qed
  have c5: "snd ?r = Some (TypeError (nullMessage st))"
    if "chartSeries data = Some j \<and> \<not> canvasPresent (fst ?r) ''replyChart''"
  proof -
    from that p have a: "\<not> canvasPresent st1 ''replyChart''" by simp
    from that show ?thesis
      by (simp add: e s1 createChart_absent [OF a])
  qed
  have c6: "snd ?r = None \<and> length (charts (fst ?r)) = Suc (length (charts st)) \<and>
      last (charts (fst ?r)) =
        \<lparr>canvas = ''replyChart'', kind = ''pie'', series = j, destroyed = False\<rparr>"
    if "chartSeries data = Some j \<and> canvasPresent (fst ?r) ''replyChart''"
  proof -
    from that p have a: "canvasPresent st1 ''replyChart''" by simp
    from that show ?thesis
      by (simp add: e s1 createChart_constructs [OF a])
  qed
  from c1 h c2 c3 c4 c5 c6 show
    "innerHTML (fst ?r) ''replyResults'' =
       [Elem ''div'' [(''class'', [Lit ''chart-container''])]
          [Elem ''h3'' [] [Text [Lit ''Original Tweet'']],
           Elem ''p'' [] [Text [Val (o_text (tr_tweet data))]],
           Elem ''div'' []
             [Text (engagement (o_likes (tr_tweet data)) (o_retweets (tr_tweet data))
                      (o_replies (tr_tweet data)))]],
        Elem ''h3'' [] [Text [Lit ''Reply Analysis ('', Val ''0'', Lit '' replies)'']],
        Elem ''p'' [] [Text [Lit ''No replies found for this tweet.'']]] \<and>
     activeClass (fst ?r) ''replyResults'' \<and>
     (chartSeries data = None \<longrightarrow>
        snd ?r = None \<and> charts (fst ?r) = charts st \<and>
        chartInstances (fst ?r) = chartInstances st) \<and>
     (\<not> canvasPresent (fst ?r) ''replyChart'' \<longrightarrow>
        length (charts (fst ?r)) = length (charts st) \<and>
        chartInstances (fst ?r) = chartInstances st) \<and>
     (chartSeries data = Some j \<and> \<not> canvasPresent (fst ?r) ''replyChart'' \<longrightarrow>
        snd ?r = Some (TypeError (nullMessage st))) \<and>
     (chartSeries data = Some j \<and> canvasPresent (fst ?r) ''replyChart'' \<longrightarrow>
        snd ?r = None \<and> length (charts (fst ?r)) = Suc (length (charts st)) \<and>
        last (charts (fst ?r)) =
          \<lparr>canvas = ''replyChart'', kind = ''pie'', series = j, destroyed = False\<rparr>)"
    by (simp only:) blast
qed

lemma exampleNoReplies_markup:
  "innerHTML (fst (displayReplyAnalysis exampleNoReplies examplePage)) =
     (\<lambda>r. if r = ''replyResults''
          then replyHeader exampleNoReplies @ [noRepliesMessage] else [])"
  "parseCanvases (fst (displayReplyAnalysis exampleNoReplies examplePage)) =
     (\<lambda>h. concat (map canvasesOf h))"
  by (auto simp: displayReplyAnalysis_series exampleNoReplies_def numberOfInt_0 examplePage_def
        helper_defs Let_def split: option.splits)

lemma exampleNoReplies_no_canvas:
  "\<not> canvasPresent (fst (displayReplyAnalysis exampleNoReplies examplePage)) ''replyChart''"
  by (simp only: canvasPresent_def exampleNoReplies_markup)
    (auto simp: resultRegions_def replyHeader_def noRepliesMessage_def el_def engagement_def
       exampleNoReplies_def numberOfInt_0)

text \<open>
  On the example page the analysis without replies, which carries a series, renders the
  message; the page holds no canvas, no chart object is constructed and \<open>createChart\<close>
  throws. Without a series nothing is thrown.
\<close>

theorem no_replies_message_rendered_witness:
  "ra_total_replies (tr_reply_analysis exampleNoReplies) = numberOfInt 0 \<and>
   chartSeries exampleNoReplies = Some (JObj []) \<and>
   \<not> canvasPresent (fst (displayReplyAnalysis exampleNoReplies examplePage)) ''replyChart'' \<and>
   innerHTML (fst (displayReplyAnalysis exampleNoReplies examplePage)) ''replyResults'' =
     [Elem ''div'' [(''class'', [Lit ''chart-container''])]
        [Elem ''h3'' [] [Text [Lit ''Original Tweet'']],
         Elem ''p'' [] [Text [Val ''hello'']],
         Elem ''div'' []
           [Text [Glyph ''red heart'', Lit '' '', Val ''0'', Lit '' | '',
                  Glyph ''repeat'', Lit '' '', Val ''0'', Lit '' | '',
                  Glyph ''speech balloon'', Lit '' '', Val ''0'']]],
      Elem ''h3'' [] [Text [Lit ''Reply Analysis ('', Val ''0'', Lit '' replies)'']],
      Elem ''p'' [] [Text [Lit ''No replies found for this tweet.'']]] \<and>
   activeClass (fst (displayReplyAnalysis exampleNoReplies examplePage)) ''replyResults'' \<and>
   charts (fst (displayReplyAnalysis exampleNoReplies examplePage)) = [] \<and>
   chartInstances (fst (displayReplyAnalysis exampleNoReplies examplePage)) = (\<lambda>c. None) \<and>
   snd (displayReplyAnalysis exampleNoReplies examplePage) =
     Some (TypeError ''Cannot read properties of null'') \<and>
   ra_total_replies (tr_reply_analysis exampleNoSeries) = numberOfInt 0 \<and>
   chartSeries exampleNoSeries = None \<and>
   snd (displayReplyAnalysis exampleNoSeries examplePage) = None \<and>
   charts (fst (displayReplyAnalysis exampleNoSeries examplePage)) = []"
proof -
  have z: "ra_total_replies (tr_reply_analysis exampleNoReplies) = numberOfInt 0"
    "ra_total_replies (tr_reply_analysis exampleNoSeries) = numberOfInt 0"
    by (simp_all add: exampleNoReplies_def exampleNoSeries_def)
  have s: "chartSeries exampleNoReplies = Some (JObj [])" "chartSeries exampleNoSeries = None"
    by (simp_all add: chartSeries_def exampleNoReplies_def exampleNoSeries_def)
  have t: "tr_tweet exampleNoReplies =
      \<lparr>o_text = ''hello'', o_likes = Fin 0 0, o_retweets = Fin 0 0, o_replies = Fin 0 0\<rparr>"
    by (simp add: exampleNoReplies_def numberOfInt_0)
  have x: "charts examplePage = []" "chartInstances examplePage = (\<lambda>c. None)"
    "nullMessage examplePage = ''Cannot read properties of null''"
    by (simp_all add: examplePage_def)
  from no_replies_message_rendered [of exampleNoReplies examplePage "JObj []"]
    no_replies_message_rendered [of exampleNoSeries examplePage "JObj []"]
  show ?thesis
    by (simp add: z s t x exampleNoReplies_no_canvas engagement_def)
qed

text \<open>
  Claim C6 as stated fails. The text of the tweet is interpolated into the markup as it
  is: when it is the markup of a canvas \<open>replyChart\<close>, the page holds that canvas once
  the markup has been assigned, and the series of the reply, which does not depend on the
  number of replies, makes \<open>createChart\<close> construct a chart, for a reply analysis with
  \<open>total_replies = 0\<close> and a successful reply.
\<close>

theorem injected_canvas_gets_chart:
  "ra_total_replies (tr_reply_analysis exampleInjected) = numberOfInt 0 \<and>
   o_text (tr_tweet exampleInjected) = ''<canvas id=replyChart></canvas>'' \<and>
   innerHTML (fst (displayReplyAnalysis exampleInjected examplePage)) ''replyResults'' =
     [Elem ''div'' [(''class'', [Lit ''chart-container''])]
        [Elem ''h3'' [] [Text [Lit ''Original Tweet'']],
         Elem ''p'' [] [Text [Val ''<canvas id=replyChart></canvas>'']],
         Elem ''div'' []
           [Text [Glyph ''red heart'', Lit '' '', Val ''0'', Lit '' | '',
                  Glyph ''repeat'', Lit '' '', Val ''0'', Lit '' | '',
                  Glyph ''speech balloon'', Lit '' '', Val ''0'']]],
      Elem ''h3'' [] [Text [Lit ''Reply Analysis ('', Val ''0'', Lit '' replies)'']],
      Elem ''p'' [] [Text [Lit ''No replies found for this tweet.'']]] \<and>
   snd (displayReplyAnalysis exampleInjected examplePage) = None \<and>
   charts (fst (displayReplyAnalysis exampleInjected examplePage)) =
     [\<lparr>canvas = ''replyChart'', kind = ''pie'', series = JObj [], destroyed = False\<rparr>] \<and>
   chartInstances (fst (displayReplyAnalysis exampleInjected examplePage)) ''replyChart'' =
     Some 0 \<and>
   charts (analyzeRepliesAwaited
             (Reply \<lparr>success = True, error = [], payload = exampleInjected\<rparr>) examplePage) =
     [\<lparr>canvas = ''replyChart'', kind = ''pie'', series = JObj [], destroyed = False\<rparr>]"
proof -
  have d: "displayReplyAnalysis exampleInjected s =
      createChart ''replyChart'' ''pie'' (JObj [])
        (showResults ''replyResults''
           (setInnerHTML ''replyResults''
              (replyHeader exampleInjected @ [noRepliesMessage]) s))" for s
    by (simp add: displayReplyAnalysis_series chartSeries_def exampleInjected_def
          exampleNoReplies_def numberOfInt_0)
  have h: "replyHeader exampleInjected @ [noRepliesMessage] =
     [Elem ''div'' [(''class'', [Lit ''chart-container''])]
        [Elem ''h3'' [] [Text [Lit ''Original Tweet'']],
         Elem ''p'' [] [Text [Val ''<canvas id=replyChart></canvas>'']],
         Elem ''div'' []
           [Text [Glyph ''red heart'', Lit '' '', Val ''0'', Lit '' | '',
                  Glyph ''repeat'', Lit '' '', Val ''0'', Lit '' | '',
                  Glyph ''speech balloon'', Lit '' '', Val ''0'']]],
      Elem ''h3'' [] [Text [Lit ''Reply Analysis ('', Val ''0'', Lit '' replies)'']],
      Elem ''p'' [] [Text [Lit ''No replies found for this tweet.'']]]"
    by (simp add: replyHeader_def noRepliesMessage_def el_def engagement_def
          exampleInjected_def exampleNoReplies_def numberOfInt_0)
  have p: "canvasPresent
      (showResults ''replyResults''
         (setInnerHTML ''replyResults'' (replyHeader exampleInjected @ [noRepliesMessage])
            (hideLoading l examplePage))) ''replyChart''" for l
    by (simp add: h canvasPresent_def resultRegions_def examplePage_def helper_defs
          conj_disj_distribR ex_disj_distrib)
  have p0: "canvasPresent
      (showResults ''replyResults''
         (setInnerHTML ''replyResults'' (replyHeader exampleInjected @ [noRepliesMessage])
            examplePage)) ''replyChart''"
    by (simp add: h canvasPresent_def resultRegions_def examplePage_def helper_defs
          conj_disj_distribR ex_disj_distrib)
  have c: "createChart ''replyChart'' ''pie'' (JObj [])
      (showResults ''replyResults''
         (setInnerHTML ''replyResults'' (replyHeader exampleInjected @ [noRepliesMessage])
            examplePage)) =
      (showResults ''replyResults''
         (setInnerHTML ''replyResults'' (replyHeader exampleInjected @ [noRepliesMessage])
            examplePage)
       \<lparr>charts := [\<lparr>canvas = ''replyChart'', kind = ''pie'', series = JObj [],
                    destroyed = False\<rparr>],
         chartInstances := (\<lambda>c. None)(''replyChart'' \<mapsto> 0)\<rparr>, None)"
    using p0 by (simp add: createChart_def Let_def) (simp add: examplePage_def helper_defs)
  have c': "createChart ''replyChart'' ''pie'' (JObj [])
      (showResults ''replyResults''
         (setInnerHTML ''replyResults'' (replyHeader exampleInjected @ [noRepliesMessage])
            (hideLoading ''replyLoading'' examplePage))) =
      (showResults ''replyResults''
         (setInnerHTML ''replyResults'' (replyHeader exampleInjected @ [noRepliesMessage])
            (hideLoading ''replyLoading'' examplePage))
       \<lparr>charts := [\<lparr>canvas = ''replyChart'', kind = ''pie'', series = JObj [],
                    destroyed = False\<rparr>],
         chartInstances := (\<lambda>c. None)(''replyChart'' \<mapsto> 0)\<rparr>, None)"
    using p [of "''replyLoading''"]
    by (simp add: createChart_def Let_def) (simp add: examplePage_def helper_defs)
  have z: "ra_total_replies (tr_reply_analysis exampleInjected) = numberOfInt 0"
    "o_text (tr_tweet exampleInjected) = ''<canvas id=replyChart></canvas>''"
    by (simp_all add: exampleInjected_def exampleNoReplies_def)
  have f: "charts (analyzeRepliesAwaited
             (Reply \<lparr>success = True, error = [], payload = exampleInjected\<rparr>) examplePage) =
     [\<lparr>canvas = ''replyChart'', kind = ''pie'', series = JObj [], destroyed = False\<rparr>]"
    by (simp add: analyzeRepliesAwaited_def d c')
  have i: "innerHTML (fst (displayReplyAnalysis exampleInjected examplePage))
      ''replyResults'' = replyHeader exampleInjected @ [noRepliesMessage]"
    by (simp add: d c helper_defs)
  show ?thesis
    by (simp add: z f i h) (simp add: d c)
qed


section \<open>Tabs\<close>

lemma activeClass_fold_removeActive:
  "activeClass (fold removeActive xs st) e \<longleftrightarrow> e \<notin> set xs \<and> activeClass st e"
  by (induction xs arbitrary: st) (auto simp: removeActive_def)

lemma tabs_fold_removeActive [simp]:
  "tabPanels (fold removeActive xs st) = tabPanels st"
  "tabSelectors (fold removeActive xs st) = tabSelectors st"
  by (induction xs arbitrary: st) (simp_all add: removeActive_def)

lemma activeClass_switchTab:
  "activeClass (switchTab e n st) x \<longleftrightarrow>
     x = e \<or> x = n @ ''-tab'' \<or>
     (x \<notin> set (tabSelectors st) \<and> x \<notin> set (tabPanels st) \<and> activeClass st x)"
  by (auto simp: switchTab_def addActive_def activeClass_fold_removeActive)

lemma filter_single: "distinct xs \<Longrightarrow> a \<in> set xs \<Longrightarrow> filter (\<lambda>x. x = a) xs = [a]"
  by (induction xs) (auto simp: filter_empty_conv)

text \<open>
  What \<open>switchTab\<close> achieves when the running event was fired on a tab selector and the
  tab is one of the page: exactly the panel of the tab and exactly that selector are
  active.
\<close>

lemma switchTab_from_selector:
  assumes "distinct (tabPanels st)" and "distinct (tabSelectors st)"
    and "set (tabPanels st) \<inter> set (tabSelectors st) = {}"
    and "tabName @ ''-tab'' \<in> set (tabPanels st)" and "eventTarget \<in> set (tabSelectors st)"
  shows "filter (activeClass (switchTab eventTarget tabName st)) (tabPanels st) =
           [tabName @ ''-tab'']"
    and "filter (activeClass (switchTab eventTarget tabName st)) (tabSelectors st) =
           [eventTarget]"
proof -
  have "filter (activeClass (switchTab eventTarget tabName st)) (tabPanels st) =
      filter (\<lambda>x. x = tabName @ ''-tab'') (tabPanels st)"
    using assms by (intro filter_cong refl) (auto simp: activeClass_switchTab)
  with assms show "filter (activeClass (switchTab eventTarget tabName st)) (tabPanels st) =
      [tabName @ ''-tab'']"
    by (simp add: filter_single)
  have "filter (activeClass (switchTab eventTarget tabName st)) (tabSelectors st) =
      filter (\<lambda>x. x = eventTarget) (tabSelectors st)"
    using assms by (intro filter_cong refl) (auto simp: activeClass_switchTab)
  with assms show "filter (activeClass (switchTab eventTarget tabName st)) (tabSelectors st) =
      [eventTarget]"
    by (simp add: filter_single)
qed

text \<open>
  Claim C5 on the code. \<open>analyzeSpecificTweet\<close> calls \<open>switchTab\<close> while the running
  event is the click on the button \<open>Analyze Replies\<close> of a tweet card. On the example
  page that call leaves the panel of the reply analysis as the one active panel, no tab
  selector active at all, and the button with the active state.
\<close>

theorem analyzeSpecificTweet_activates_no_selector:
  "filter (activeClass (analyzeSpecificTweet ''analyze-replies-button'' ''12345'' (Failed [])
             examplePage))
     (tabPanels examplePage) = [''reply-analysis-tab''] \<and>
   filter (activeClass (analyzeSpecificTweet ''analyze-replies-button'' ''12345'' (Failed [])
             examplePage))
     (tabSelectors examplePage) = [] \<and>
   activeClass (analyzeSpecificTweet ''analyze-replies-button'' ''12345'' (Failed [])
     examplePage) ''analyze-replies-button'' \<and>
   filter (activeClass (switchTab ''analyze-replies-button'' ''reply-analysis'' examplePage))
     (tabSelectors examplePage) = []"
proof -
  have i: "extractTweetId ''12345'' = ''12345''"
    by (simp add: extractTweetId_def matchHere_def)
  show ?thesis
    by (simp add: analyzeSpecificTweet_def analyzeReplies_def analyzeRepliesAwaited_def
        switchTab_def examplePage_def helper_defs i Let_def)
qed

end
